theory Spec2Isabelle
  imports Complex_Main
begin

section \<open>JavaScript values\<close>

text \<open>
  Numbers are IEEE doubles.  A finite double is embedded in the reals (the two zeros
  coincide, as they do for every operator the code uses); \<open>NaN\<close> and the two infinities are
  values of their own.  The one subtraction the code performs is between two DOM \<open>long\<close>
  values and is exact.
\<close>

datatype jsnum = NaN | NInf | Fin real | PInf

text \<open>
  The values a scroll offset can take in the model are the primitive values below.
  Objects (compared by reference), symbols and bigints are not part of the model.
\<close>

datatype jsval = JUndefined | JNull | JBool bool | JNum jsnum | JStr string

datatype jstype = TUndefined | TObject | TBoolean | TNumber | TString | TFunction

fun typeof :: "jsval \<Rightarrow> jstype" where
  "typeof JUndefined = TUndefined"
| "typeof JNull = TObject"
| "typeof (JBool b) = TBoolean"
| "typeof (JNum n) = TNumber"
| "typeof (JStr s) = TString"

text \<open>ToBoolean: the falsy values are undefined, null, false, 0, NaN and the empty string.\<close>

fun truthy :: "jsval \<Rightarrow> bool" where
  "truthy JUndefined = False"
| "truthy JNull = False"
| "truthy (JBool b) = b"
| "truthy (JNum n) = (n \<noteq> NaN \<and> n \<noteq> Fin 0)"
| "truthy (JStr s) = (s \<noteq> [])"

text \<open>
  ToNumber.  The conversion of a string (the grammar of numeric literals) is the
  language's own and is taken as the parameter \<open>sn\<close>.
\<close>

fun ToNumber :: "(string \<Rightarrow> jsnum) \<Rightarrow> jsval \<Rightarrow> jsnum" where
  "ToNumber sn JUndefined = NaN"
| "ToNumber sn JNull = Fin 0"
| "ToNumber sn (JBool b) = (if b then Fin 1 else Fin 0)"
| "ToNumber sn (JNum n) = n"
| "ToNumber sn (JStr s) = sn s"

fun num_lt :: "jsnum \<Rightarrow> jsnum \<Rightarrow> bool" where
  "num_lt NaN y = False"
| "num_lt x NaN = False"
| "num_lt PInf y = False"
| "num_lt x NInf = False"
| "num_lt NInf y = True"
| "num_lt x PInf = True"
| "num_lt (Fin a) (Fin b) = (a < b)"

text \<open>
  The operator \<open>+\<close> on numbers.  The sum of two finite doubles is the exact sum rounded
  to a double, or an infinity when it overflows; this is the language's own arithmetic and
  is taken as the parameter \<open>fadd\<close>.
\<close>

fun num_add :: "(real \<Rightarrow> real \<Rightarrow> jsnum) \<Rightarrow> jsnum \<Rightarrow> jsnum \<Rightarrow> jsnum" where
  "num_add fadd NaN y = NaN"
| "num_add fadd x NaN = NaN"
| "num_add fadd PInf NInf = NaN"
| "num_add fadd NInf PInf = NaN"
| "num_add fadd PInf y = PInf"
| "num_add fadd x PInf = PInf"
| "num_add fadd NInf y = NInf"
| "num_add fadd x NInf = NInf"
| "num_add fadd (Fin a) (Fin b) = fadd a b"

text \<open>
  The relational operators \<open><\<close> and \<open>>\<close> with a number on the right: the left
  operand is converted with ToNumber (a string is compared as a string only against
  another string).
\<close>

definition js_lt :: "(string \<Rightarrow> jsnum) \<Rightarrow> jsval \<Rightarrow> jsnum \<Rightarrow> bool" where
  "js_lt sn v n = num_lt (ToNumber sn v) n"

definition js_gt :: "(string \<Rightarrow> jsnum) \<Rightarrow> jsval \<Rightarrow> jsnum \<Rightarrow> bool" where
  "js_gt sn v n = num_lt n (ToNumber sn v)"

text \<open>Strict equality \<open>===\<close> on primitives: same type and same value, and NaN equals nothing.\<close>

fun strict_eq :: "jsval \<Rightarrow> jsval \<Rightarrow> bool" where
  "strict_eq (JNum a) (JNum b) = (a \<noteq> NaN \<and> b \<noteq> NaN \<and> a = b)"
| "strict_eq x y = (x = y)"

definition strict_neq :: "jsval \<Rightarrow> jsval \<Rightarrow> bool" where
  "strict_neq x y = (\<not> strict_eq x y)"

text \<open>\<open>arguments[i]\<close> of a call, \<open>undefined\<close> past the arguments given.\<close>

definition argument :: "jsval list \<Rightarrow> nat \<Rightarrow> jsval" where
  "argument arguments i = (if i < length arguments then arguments ! i else JUndefined)"

datatype error = TypeError | ReferenceError | SyntaxError | InvalidCharacterError

type_synonym ('s, 'a) outcome = "(error \<times> 's) + ('a \<times> 's)"

section \<open>The browser: element, window, scroll view\<close>

text \<open>
  The container element.  Its scroll offsets are \<open>unrestricted double\<close> attributes: an
  assignment stores the number the assigned value converts to.  What a browser does to an
  assigned offset beyond that (clamping it into the scroll range, snapping it to device
  pixels) is outside the repository and not modelled.  The four box metrics are \<open>long\<close>
  attributes.  \<open>el_parents\<close> lists the elements that following \<open>parentElement\<close> from the
  container visits, nearest first; the chain is finite (the DOM is a tree) and ends in
  \<open>el_chain_end\<close>.
\<close>

datatype node = DocumentBody | OtherElement nat

datatype chain_end = EndNull | EndUndefined

datatype fn_ref = OwnListener string | ForeignListener nat

record element =
  el_scrollTop :: jsnum
  el_scrollLeft :: jsnum
  el_scrollHeight :: int
  el_scrollWidth :: int
  el_clientHeight :: int
  el_clientWidth :: int
  el_parents :: "node list"
  el_chain_end :: chain_end
  el_style_overflow :: string
  el_style_position :: string
  el_computed_position :: string
  el_listeners :: "(string \<times> fn_ref) list"

definition num_of_int :: "int \<Rightarrow> jsnum" where
  "num_of_int i = Fin (real_of_int i)"

definition addEventListener :: "string \<Rightarrow> fn_ref \<Rightarrow> element \<Rightarrow> element" where
  "addEventListener k f e =
     (if (k, f) \<in> set (el_listeners e) then e
      else e\<lparr>el_listeners := el_listeners e @ [(k, f)]\<rparr>)"

definition removeEventListener :: "string \<Rightarrow> fn_ref \<Rightarrow> element \<Rightarrow> element" where
  "removeEventListener k f e = e\<lparr>el_listeners := removeAll (k, f) (el_listeners e)\<rparr>"

text \<open>
  The window's timers.  A timer records its handle, its callback, the delay it was set
  with, whether it repeats, and the time at which it was set.  Handles are never reused.
\<close>

record ('cb, 'd) timer =
  t_handle :: nat
  t_callback :: 'cb
  t_delay :: 'd
  t_repeat :: bool
  t_set :: nat

record ('cb, 'd) window =
  win_now :: nat
  win_next :: nat
  win_timers :: "('cb, 'd) timer list"

definition set_timer :: "bool \<Rightarrow> 'cb \<Rightarrow> 'd \<Rightarrow> ('cb, 'd) window \<Rightarrow> nat \<times> ('cb, 'd) window" where
  "set_timer rep cb d w =
     (win_next w,
      w\<lparr>win_next := Suc (win_next w),
        win_timers := win_timers w @
          [\<lparr>t_handle = win_next w, t_callback = cb, t_delay = d, t_repeat = rep,
            t_set = win_now w\<rparr>]\<rparr>)"

definition setTimeout :: "'cb \<Rightarrow> 'd \<Rightarrow> ('cb, 'd) window \<Rightarrow> nat \<times> ('cb, 'd) window" where
  "setTimeout = set_timer False"

definition setInterval :: "'cb \<Rightarrow> 'd \<Rightarrow> ('cb, 'd) window \<Rightarrow> nat \<times> ('cb, 'd) window" where
  "setInterval = set_timer True"

text \<open>
  \<open>clearTimeout\<close> and \<open>clearInterval\<close> share one table of handles; clearing \<open>null\<close>
  (here \<open>None\<close>) or a handle that is not active does nothing.
\<close>

definition clear_timer :: "nat option \<Rightarrow> ('cb, 'd) window \<Rightarrow> ('cb, 'd) window" where
  "clear_timer p w =
     (case p of None \<Rightarrow> w
      | Some h \<Rightarrow> w\<lparr>win_timers := filter (\<lambda>t. t_handle t \<noteq> h) (win_timers w)\<rparr>)"

definition clearTimeout :: "nat option \<Rightarrow> ('cb, 'd) window \<Rightarrow> ('cb, 'd) window" where
  "clearTimeout = clear_timer"

definition clearInterval :: "nat option \<Rightarrow> ('cb, 'd) window \<Rightarrow> ('cb, 'd) window" where
  "clearInterval = clear_timer"

text \<open>
  Modelled from the spec: the \<open>ScrollView\<close> class (\<open>./scrollview\<close>) is not among the
  sources.  The spec describes it as a view renderer in a one-directional parent-to-child
  update relationship with no feedback loop, so the view is modelled as the sequence of
  calls it has received; a call on the view changes nothing else.
\<close>

datatype view_call =
  ParentUpdated | ScrollTopUpdated jsval | ScrollLeftUpdated jsval | ViewDestroyed

datatype ptr = NullPtr | ObjPtr

record options =
  disableYScrolling :: jsval
  disableXScrolling :: jsval
  disableTouchScrollingOnContainer :: jsval
  checkInterval :: jsval
  useMutationObserver :: jsval

text \<open>The variables the change-detection closure keeps.\<close>

record cache =
  containerHeight :: int
  containerWidth :: int
  scrollHeight :: int
  scrollWidth :: int

datatype callback = IntervalHandler | MutationHandler

text \<open>
  The state both classes share: the element passed to the constructor, the window, the
  scroll view, and the fields of the instance.  \<open>this_container\<close> and \<open>this_scrollView\<close>
  are references, \<open>NullPtr\<close> once \<open>destroy\<close> has run.
\<close>

record core =
  element :: element
  window :: "(callback, jsval) window"
  view :: "view_call list"
  this_container :: ptr
  this_options :: options
  this_scrollView :: ptr
  this_scrollTop :: jsval
  this_scrollLeft :: jsval
  cache :: cache

record sc_state = core +
  this_intervalPointer :: nat

section \<open>ScrollContainer (src/scrollcontainer.js)\<close>

definition sc_scrollTop ::
  "(string \<Rightarrow> jsnum) \<Rightarrow> sc_state \<Rightarrow> jsval list \<Rightarrow> (sc_state, jsval) outcome" where
  "sc_scrollTop sn s arguments =
     (let aScrollTop = argument arguments 0 in
      if typeof aScrollTop \<noteq> TNumber \<or> truthy (disableYScrolling (this_options s)) then
        (case this_container s of
           NullPtr \<Rightarrow> Inl (TypeError, s)
         | ObjPtr \<Rightarrow> Inr (JNum (el_scrollTop (element s)), s))
      else
        (case (if js_lt sn aScrollTop (Fin 0) then Inr (JNum (Fin 0))
               else (case this_container s of
                       NullPtr \<Rightarrow> Inl TypeError
                     | ObjPtr \<Rightarrow>
                         if js_gt sn aScrollTop
                              (num_of_int (el_scrollHeight (element s) - el_clientHeight (element s)))
                         then Inr (JNum (num_of_int
                                (el_scrollHeight (element s) - el_clientHeight (element s))))
                         else Inr aScrollTop)) of
           Inl e \<Rightarrow> Inl (e, s)
         | Inr newScrollTop \<Rightarrow>
             if strict_neq (this_scrollTop s) newScrollTop then
               (case this_scrollView s of
                  NullPtr \<Rightarrow> Inl (TypeError, s)
                | ObjPtr \<Rightarrow>
                    (let s1 = s\<lparr>view := view s @ [ScrollTopUpdated newScrollTop]\<rparr> in
                     case this_container s1 of
                       NullPtr \<Rightarrow> Inl (TypeError, s1)
                     | ObjPtr \<Rightarrow>
                         Inr (newScrollTop,
                              s1\<lparr>element := (element s1)\<lparr>el_scrollTop := ToNumber sn newScrollTop\<rparr>,
                                 this_scrollTop := newScrollTop\<rparr>)))
             else Inr (newScrollTop, s)))"

definition sc_scrollLeft ::
  "(string \<Rightarrow> jsnum) \<Rightarrow> sc_state \<Rightarrow> jsval list \<Rightarrow> (sc_state, jsval) outcome" where
  "sc_scrollLeft sn s arguments =
     (let aScrollLeft = argument arguments 0 in
      if length arguments = 0 \<or> truthy (disableXScrolling (this_options s)) then
        (case this_container s of
           NullPtr \<Rightarrow> Inl (TypeError, s)
         | ObjPtr \<Rightarrow> Inr (JNum (el_scrollLeft (element s)), s))
      else
        (case (if js_lt sn aScrollLeft (Fin 0) then Inr (JNum (Fin 0))
               else (case this_container s of
                       NullPtr \<Rightarrow> Inl TypeError
                     | ObjPtr \<Rightarrow>
                         if js_gt sn aScrollLeft
                              (num_of_int (el_scrollWidth (element s) - el_clientWidth (element s)))
                         then Inr (JNum (num_of_int
                                (el_scrollWidth (element s) - el_clientWidth (element s))))
                         else Inr aScrollLeft)) of
           Inl e \<Rightarrow> Inl (e, s)
         | Inr newScrollLeft \<Rightarrow>
             if strict_neq (this_scrollLeft s) newScrollLeft then
               (case this_scrollView s of
                  NullPtr \<Rightarrow> Inl (TypeError, s)
                | ObjPtr \<Rightarrow>
                    (let s1 = s\<lparr>view := view s @ [ScrollLeftUpdated newScrollLeft]\<rparr> in
                     case this_container s1 of
                       NullPtr \<Rightarrow> Inl (TypeError, s1)
                     | ObjPtr \<Rightarrow>
                         Inr (newScrollLeft,
                              s1\<lparr>element := (element s1)\<lparr>el_scrollLeft := ToNumber sn newScrollLeft\<rparr>,
                                 this_scrollLeft := newScrollLeft\<rparr>)))
             else Inr (newScrollLeft, s)))"

text \<open>
  The keys of \<open>this._eventListener\<close>, in the order \<open>Object.keys\<close> lists them.  The
  listener stored under key \<open>k\<close> is the function \<open>OwnListener k\<close>.
\<close>

definition eventListener_keys :: "string list" where
  "eventListener_keys = [''wheel'', ''touchstart'']"

definition sc_destroy :: "sc_state \<Rightarrow> (sc_state, unit) outcome" where
  "sc_destroy s =
     (let s1 = s\<lparr>window := clearInterval (Some (this_intervalPointer s)) (window s)\<rparr> in
      case this_container s1 of
        NullPtr \<Rightarrow> Inl (TypeError, s1)
      | ObjPtr \<Rightarrow>
          (let s2 = s1\<lparr>element :=
                      fold (\<lambda>aKey. removeEventListener aKey (OwnListener aKey))
                        eventListener_keys (element s1)\<rparr> in
           case this_scrollView s2 of
             NullPtr \<Rightarrow> Inl (TypeError, s2)
           | ObjPtr \<Rightarrow>
               Inr ((), s2\<lparr>view := view s2 @ [ViewDestroyed],
                           this_scrollView := NullPtr,
                           this_container := NullPtr\<rparr>)))"

text \<open>
  The search for the root element: the loop follows \<open>parentElement\<close> until it holds
  null, undefined or \<open>document.body\<close>.
\<close>

datatype root = ReachedNull | ReachedUndefined | ReachedBody

fun find_root :: "node list \<Rightarrow> chain_end \<Rightarrow> root" where
  "find_root [] EndNull = ReachedNull"
| "find_root [] EndUndefined = ReachedUndefined"
| "find_root (DocumentBody # ps) e = ReachedBody"
| "find_root (OtherElement n # ps) e = find_root ps e"

definition current_dims :: "element \<Rightarrow> cache" where
  "current_dims e =
     \<lparr>containerHeight = el_clientHeight e, containerWidth = el_clientWidth e,
      scrollHeight = el_scrollHeight e, scrollWidth = el_scrollWidth e\<rparr>"

definition dims_changed :: "cache \<Rightarrow> element \<Rightarrow> bool" where
  "dims_changed c e =
     (containerHeight c \<noteq> el_clientHeight e \<or> containerWidth c \<noteq> el_clientWidth e \<or>
      scrollHeight c \<noteq> el_scrollHeight e \<or> scrollWidth c \<noteq> el_scrollWidth e)"

text \<open>
  The closure \<open>_createIntervalHandler\<close> returns.  The two references are read at the
  top; nothing between there and their later uses assigns them.
\<close>

definition sc_intervalHandler ::
  "(string \<Rightarrow> jsnum) \<Rightarrow> sc_state \<Rightarrow> (sc_state, unit) outcome" where
  "sc_intervalHandler sn s =
     (case this_container s of
        NullPtr \<Rightarrow> Inl (TypeError, s)
      | ObjPtr \<Rightarrow>
          (let potentialRootElement =
                 find_root (el_parents (element s)) (el_chain_end (element s));
               oldScrollTop = this_scrollTop s;
               oldScrollLeft = this_scrollLeft s in
           case this_scrollView s of
             NullPtr \<Rightarrow> Inl (TypeError, s)
           | ObjPtr \<Rightarrow>
               (let s1 = s\<lparr>view := view s @
                            [ScrollTopUpdated (JNum (Fin 0)), ScrollLeftUpdated (JNum (Fin 0))]\<rparr> in
                if potentialRootElement = ReachedNull \<or> potentialRootElement = ReachedUndefined
                then sc_destroy s1
                else
                  (let s2 = (if dims_changed (cache s1) (element s1)
                             then s1\<lparr>cache := current_dims (element s1),
                                     view := view s1 @ [ParentUpdated]\<rparr>
                             else s1) in
                   case (if strict_neq (this_scrollTop s2) (JNum (el_scrollTop (element s2)))
                         then (case sc_scrollTop sn s2 [JNum (el_scrollTop (element s2))] of
                                 Inl x \<Rightarrow> Inl x | Inr (r, s') \<Rightarrow> Inr ((), s'))
                         else if js_lt sn oldScrollTop (num_of_int (scrollHeight (cache s2)))
                         then Inr ((), s2\<lparr>view := view s2 @ [ScrollTopUpdated oldScrollTop]\<rparr>)
                         else Inr ((), s2)) of
                     Inl x \<Rightarrow> Inl x
                   | Inr (u, s3) \<Rightarrow>
                       (if strict_neq (this_scrollLeft s3) (JNum (el_scrollLeft (element s3)))
                        then (case sc_scrollLeft sn s3 [JNum (el_scrollLeft (element s3))] of
                                Inl x \<Rightarrow> Inl x | Inr (r, s') \<Rightarrow> Inr ((), s'))
                        else if js_lt sn oldScrollLeft (num_of_int (scrollWidth (cache s3)))
                        then Inr ((), s3\<lparr>view := view s3 @ [ScrollLeftUpdated oldScrollLeft]\<rparr>)
                        else Inr ((), s3))))))"

text \<open>
  A wheel event as the listener sees it.  \<open>preventDefault_called\<close> records a call of
  \<open>preventDefault\<close>, which cancels the event when it is cancelable.  The deltas are
  numbers; NaN stands for what adding a missing delta gives.
\<close>

record wheel_event =
  defaultPrevented :: bool
  cancelable :: bool
  deltaX :: jsnum
  deltaY :: jsnum
  preventDefault_called :: bool

definition preventDefault :: "wheel_event \<Rightarrow> wheel_event" where
  "preventDefault e =
     e\<lparr>preventDefault_called := True, defaultPrevented := (defaultPrevented e \<or> cancelable e)\<rparr>"

definition sc_wheel ::
  "(string \<Rightarrow> jsnum) \<Rightarrow> (real \<Rightarrow> real \<Rightarrow> jsnum) \<Rightarrow> sc_state \<Rightarrow> wheel_event \<Rightarrow>
   (sc_state, wheel_event) outcome" where
  "sc_wheel sn fadd s aEvent =
     (if defaultPrevented aEvent then Inr (aEvent, s)
      else
        (case this_container s of
           NullPtr \<Rightarrow> Inl (TypeError, s)
         | ObjPtr \<Rightarrow>
             (let currentScrollTop = el_scrollTop (element s);
                  currentScrollLeft = el_scrollLeft (element s) in
              case sc_scrollTop sn s [JNum (num_add fadd (el_scrollTop (element s)) (deltaY aEvent))] of
                Inl x \<Rightarrow> Inl x
              | Inr (r1, s1) \<Rightarrow>
                  (case this_container s1 of
                     NullPtr \<Rightarrow> Inl (TypeError, s1)
                   | ObjPtr \<Rightarrow>
                       (case sc_scrollLeft sn s1
                               [JNum (num_add fadd (el_scrollLeft (element s1)) (deltaX aEvent))] of
                          Inl x \<Rightarrow> Inl x
                        | Inr (r2, s2) \<Rightarrow>
                            (case this_container s2 of
                               NullPtr \<Rightarrow> Inl (TypeError, s2)
                             | ObjPtr \<Rightarrow>
                                 if strict_neq (JNum currentScrollTop) (JNum (el_scrollTop (element s2))) \<or>
                                    strict_neq (JNum currentScrollLeft) (JNum (el_scrollLeft (element s2)))
                                 then Inr (preventDefault aEvent, s2)
                                 else Inr (aEvent, s2)))))))"

text \<open>
  The constructor, for an element and an options object.  The body of the
  \<open>touchstart\<close> listener is not modelled: only its registration is.
\<close>

definition sc_new :: "element \<Rightarrow> (callback, jsval) window \<Rightarrow> options \<Rightarrow> sc_state" where
  "sc_new aElement w aOptions =
     (let (h, w1) = setInterval IntervalHandler
                      (if truthy (checkInterval aOptions) then checkInterval aOptions
                       else JNum (Fin 300)) w;
          e1 = aElement\<lparr>el_style_overflow := ''hidden''\<rparr>;
          currentPositionStyle = el_computed_position e1;
          e2 = (if currentPositionStyle \<noteq> ''absolute'' \<and> currentPositionStyle \<noteq> ''relative''
                then e1\<lparr>el_style_position := ''relative''\<rparr> else e1);
          e3 = fold (\<lambda>aKey. addEventListener aKey (OwnListener aKey)) eventListener_keys e2
      in \<lparr>element = e3, window = w1, view = [ParentUpdated],
          this_container = ObjPtr, this_options = aOptions, this_scrollView = ObjPtr,
          this_scrollTop = JNum (Fin 0), this_scrollLeft = JNum (Fin 0),
          cache = current_dims aElement,
          this_intervalPointer = h\<rparr>)"

section \<open>The helper module (unnamed/part_000)\<close>

text \<open>
  \<open>debounce\<close> returns a closure over the callback, the wait time and the variable
  \<open>pointer\<close>, which starts as null.  A call of the closure clears the timeout
  \<open>pointer\<close> names and sets a new one.
\<close>

record ('cb, 'd) debounced =
  aCallback :: 'cb
  aWaitTime :: 'd
  pointer :: "nat option"

definition debounce :: "'cb \<Rightarrow> 'd \<Rightarrow> ('cb, 'd) debounced" where
  "debounce cb wt = \<lparr>aCallback = cb, aWaitTime = wt, pointer = None\<rparr>"

definition debounced_call ::
  "('cb, 'd) debounced \<Rightarrow> ('cb, 'd) window \<Rightarrow> ('cb, 'd) debounced \<times> ('cb, 'd) window" where
  "debounced_call d w =
     (let w1 = clearTimeout (pointer d) w;
          (h, w2) = setTimeout (aCallback d) (aWaitTime d) w1
      in (d\<lparr>pointer := Some h\<rparr>, w2))"

text \<open>
  \<open>applyOptionsToScollBarElement\<close>.  An option value is a primitive, an array, an
  object (its own enumerable properties, one entry each, in the order \<open>Object.keys\<close>
  lists them) or a function.  The element is modelled by what the function does to it:
  the assignments to \<open>aElement.style\<close> that went through and the tokens
  \<open>aElement.classList.add\<close> has accepted, in order.
\<close>

datatype optval = Prim jsval | Arr "optval list" | Obj "(string \<times> optval) list" | Fun

fun typeof_opt :: "optval \<Rightarrow> jstype" where
  "typeof_opt (Prim v) = typeof v"
| "typeof_opt (Arr xs) = TObject"
| "typeof_opt (Obj kvs) = TObject"
| "typeof_opt Fun = TFunction"

fun truthy_opt :: "optval \<Rightarrow> bool" where
  "truthy_opt (Prim v) = truthy v"
| "truthy_opt v = True"

fun isArray :: "optval \<Rightarrow> bool" where
  "isArray (Arr xs) = True"
| "isArray v = False"

text \<open>
  \<open>o[k]\<close> for a key that is neither an index nor the name of a built-in property: the
  own property of an object, undefined on anything else.
\<close>

fun get_prop :: "optval \<Rightarrow> string \<Rightarrow> optval" where
  "get_prop (Obj kvs) k = (case map_of kvs k of None \<Rightarrow> Prim JUndefined | Some v \<Rightarrow> v)"
| "get_prop v k = Prim JUndefined"

fun object_keys :: "optval \<Rightarrow> string list" where
  "object_keys (Obj kvs) = map fst kvs"
| "object_keys v = []"

fun array_entries :: "optval \<Rightarrow> optval list" where
  "array_entries (Arr xs) = xs"
| "array_entries v = []"

datatype effect = StyleSet string optval | ClassAdd optval

text \<open>
  \<open>classList.add(token)\<close> converts its argument to a string and, before it adds
  anything, throws a SyntaxError when the token is empty and an InvalidCharacterError
  when it contains ASCII whitespace (tab, line feed, form feed, carriage return, space).
  The conversion of a value that is not a string is the language's own and is taken as
  the parameter \<open>ts\<close>.
\<close>

definition ascii_whitespace :: "char \<Rightarrow> bool" where
  "ascii_whitespace c = (c \<in> set [CHR 0x09, CHR 0x0A, CHR 0x0C, CHR 0x0D, CHR 0x20])"

fun token_of :: "(optval \<Rightarrow> string) \<Rightarrow> optval \<Rightarrow> string" where
  "token_of ts (Prim (JStr s)) = s"
| "token_of ts v = ts v"

definition classList_add ::
  "(optval \<Rightarrow> string) \<Rightarrow> effect list \<Rightarrow> optval \<Rightarrow> (effect list, unit) outcome" where
  "classList_add ts aElement v =
     (if token_of ts v = [] then Inl (SyntaxError, aElement)
      else if list_ex ascii_whitespace (token_of ts v) then Inl (InvalidCharacterError, aElement)
      else Inr ((), aElement @ [ClassAdd v]))"

text \<open>\<open>forEach\<close> over the class array: an exception ends the loop and the call.\<close>

fun forEach_add ::
  "(optval \<Rightarrow> string) \<Rightarrow> effect list \<Rightarrow> optval list \<Rightarrow> (effect list, unit) outcome" where
  "forEach_add ts aElement [] = Inr ((), aElement)"
| "forEach_add ts aElement (aClass # rest) =
     (case classList_add ts aElement aClass of
        Inl x \<Rightarrow> Inl x
      | Inr (u, e) \<Rightarrow> forEach_add ts e rest)"

text \<open>
  \<open>forEach\<close> over the keys of the styles object.  The module is strict-mode code, where
  assigning to a member the object does not let scripts assign (a read-only attribute of
  \<open>element.style\<close> such as \<open>parentRule\<close>) throws a TypeError.  Which keys can be
  assigned is the browser's affair and is taken as the parameter \<open>assignable\<close>.
\<close>

fun forEach_style ::
  "(string \<Rightarrow> bool) \<Rightarrow> effect list \<Rightarrow> optval \<Rightarrow> string list \<Rightarrow> (effect list, unit) outcome" where
  "forEach_style assignable aElement styles [] = Inr ((), aElement)"
| "forEach_style assignable aElement styles (aKey # rest) =
     (if assignable aKey
      then forEach_style assignable (aElement @ [StyleSet aKey (get_prop styles aKey)]) styles rest
      else Inl (TypeError, aElement))"

definition applyOptionsToScollBarElement ::
  "(string \<Rightarrow> bool) \<Rightarrow> (optval \<Rightarrow> string) \<Rightarrow> effect list \<Rightarrow> string \<Rightarrow> optval \<Rightarrow>
   (effect list, unit) outcome" where
  "applyOptionsToScollBarElement assignable ts aElement aElementName aOptions =
     (let stylesKey = aElementName @ ''Styles'';
          classKey = aElementName @ ''Class''
      in case (if truthy_opt aOptions \<and> truthy_opt (get_prop aOptions stylesKey) \<and>
                  typeof_opt (get_prop aOptions stylesKey) = TObject \<and>
                  \<not> isArray (get_prop aOptions stylesKey)
               then forEach_style assignable aElement (get_prop aOptions stylesKey)
                      (object_keys (get_prop aOptions stylesKey))
               else Inr ((), aElement)) of
           Inl x \<Rightarrow> Inl x
         | Inr (u, e1) \<Rightarrow>
             if truthy_opt aOptions \<and> truthy_opt (get_prop aOptions classKey) \<and>
                typeof_opt (get_prop aOptions classKey) = TString
             then classList_add ts e1 (get_prop aOptions classKey)
             else if truthy_opt aOptions \<and> isArray (get_prop aOptions classKey)
             then forEach_add ts e1 (array_entries (get_prop aOptions classKey))
             else Inr ((), e1))"

text \<open>
  A host for a debounced callback, to state when the callback runs.  Time is counted in
  milliseconds and delays are the milliseconds the host waits.  The wrapper can be
  invoked, time can pass, and the host can run the timeout with a given handle once its
  delay has elapsed (it may run it later than that).  The trace lists, newest first, the
  invocations of the wrapper and the runs of its callback with their times.
\<close>

datatype host_event = Invoke | Elapse nat | Fire nat

datatype trace_entry = Invoked nat | Ran nat

record 'cb deb_host =
  dh_window :: "('cb, nat) window"
  dh_wrapper :: "('cb, nat) debounced"
  dh_trace :: "trace_entry list"

definition due :: "('cb, nat) window \<Rightarrow> ('cb, nat) timer \<Rightarrow> bool" where
  "due w t = (t_set t + t_delay t \<le> win_now w)"

fun host_step :: "host_event \<Rightarrow> 'cb deb_host \<Rightarrow> 'cb deb_host" where
  "host_step Invoke h =
     (let (d, w) = debounced_call (dh_wrapper h) (dh_window h)
      in h\<lparr>dh_window := w, dh_wrapper := d,
           dh_trace := Invoked (win_now (dh_window h)) # dh_trace h\<rparr>)"
| "host_step (Elapse k) h =
     h\<lparr>dh_window := (dh_window h)\<lparr>win_now := win_now (dh_window h) + k\<rparr>\<rparr>"
| "host_step (Fire x) h =
     (case filter (\<lambda>t. t_handle t = x \<and> \<not> t_repeat t) (win_timers (dh_window h)) of
        [] \<Rightarrow> h
      | t # ts \<Rightarrow>
          if due (dh_window h) t then
            h\<lparr>dh_window := clear_timer (Some x) (dh_window h),
              dh_trace := (if t_callback t = aCallback (dh_wrapper h)
                           then Ran (win_now (dh_window h)) # dh_trace h
                           else dh_trace h)\<rparr>
          else h)"

definition host_run :: "host_event list \<Rightarrow> 'cb deb_host \<Rightarrow> 'cb deb_host" where
  "host_run evs h = fold host_step evs h"

definition host_init :: "'cb \<Rightarrow> nat \<Rightarrow> ('cb, nat) window \<Rightarrow> 'cb deb_host" where
  "host_init cb wt w = \<lparr>dh_window = w, dh_wrapper = debounce cb wt, dh_trace = []\<rparr>"

text \<open>
  What the trace of a debounced callback must look like, newest entry first: a run is
  directly preceded by an invocation of the wrapper that lies at least the wait time back.
\<close>

fun debounced_trace :: "nat \<Rightarrow> trace_entry list \<Rightarrow> bool" where
  "debounced_trace wt [] = True"
| "debounced_trace wt (Invoked i # es) = debounced_trace wt es"
| "debounced_trace wt (Ran r # Invoked i # es) = (i + wt \<le> r \<and> debounced_trace wt es)"
| "debounced_trace wt (Ran r # es) = False"

fun ran_times :: "trace_entry list \<Rightarrow> nat list" where
  "ran_times [] = []"
| "ran_times (Ran r # es) = r # ran_times es"
| "ran_times (Invoked i # es) = ran_times es"

text \<open>Successive runs, newest first, lie at least the wait time apart.\<close>

fun spaced :: "nat \<Rightarrow> nat list \<Rightarrow> bool" where
  "spaced wt (r2 # r1 # rs) = (r1 + wt \<le> r2 \<and> spaced wt (r1 # rs))"
| "spaced wt rs = True"

definition pending_for :: "'cb \<Rightarrow> ('cb, 'd) window \<Rightarrow> ('cb, 'd) timer list" where
  "pending_for cb w = filter (\<lambda>t. t_callback t = cb) (win_timers w)"

section \<open>PocScrollbar (unnamed/part_001)\<close>

text \<open>
  \<open>this._mutationObserver\<close> holds a MutationObserver, the handle of an interval, or
  null; it is undefined until the constructor assigns it.  The observer itself is an
  object of the browser: its callback (the debounced handler) and whether it is observing.
\<close>

datatype mo_ref = MoUndefined | MoNull | MoObserver | MoInterval nat

record mutation_observer =
  mo_callback :: "(callback, jsval) debounced"
  mo_observing :: bool

record poc_state = core +
  this_mutationObserver :: mo_ref
  observer :: "mutation_observer option"

definition poc_scrollTop ::
  "(string \<Rightarrow> jsnum) \<Rightarrow> poc_state \<Rightarrow> jsval list \<Rightarrow> (poc_state, jsval) outcome" where
  "poc_scrollTop sn s arguments =
     (let aScrollTop = argument arguments 0 in
      if typeof aScrollTop \<noteq> TNumber \<or> truthy (disableYScrolling (this_options s)) then
        (case this_container s of
           NullPtr \<Rightarrow> Inl (TypeError, s)
         | ObjPtr \<Rightarrow> Inr (JNum (el_scrollTop (element s)), s))
      else
        (case (if js_lt sn aScrollTop (Fin 0) then Inr (JNum (Fin 0))
               else (case this_container s of
                       NullPtr \<Rightarrow> Inl TypeError
                     | ObjPtr \<Rightarrow>
                         if js_gt sn aScrollTop
                              (num_of_int (el_scrollHeight (element s) - el_clientHeight (element s)))
                         then Inr (JNum (num_of_int
                                (el_scrollHeight (element s) - el_clientHeight (element s))))
                         else Inr aScrollTop)) of
           Inl e \<Rightarrow> Inl (e, s)
         | Inr newScrollTop \<Rightarrow>
             if strict_neq (this_scrollTop s) newScrollTop then
               (case this_scrollView s of
                  NullPtr \<Rightarrow> Inl (TypeError, s)
                | ObjPtr \<Rightarrow>
                    (let s1 = s\<lparr>view := view s @ [ScrollTopUpdated newScrollTop]\<rparr> in
                     case this_container s1 of
                       NullPtr \<Rightarrow> Inl (TypeError, s1)
                     | ObjPtr \<Rightarrow>
                         Inr (newScrollTop,
                              s1\<lparr>element := (element s1)\<lparr>el_scrollTop := ToNumber sn newScrollTop\<rparr>,
                                 this_scrollTop := newScrollTop\<rparr>)))
             else Inr (newScrollTop, s)))"

definition poc_scrollLeft ::
  "(string \<Rightarrow> jsnum) \<Rightarrow> poc_state \<Rightarrow> jsval list \<Rightarrow> (poc_state, jsval) outcome" where
  "poc_scrollLeft sn s arguments =
     (let aScrollLeft = argument arguments 0 in
      if length arguments = 0 \<or> truthy (disableXScrolling (this_options s)) then
        (case this_container s of
           NullPtr \<Rightarrow> Inl (TypeError, s)
         | ObjPtr \<Rightarrow> Inr (JNum (el_scrollLeft (element s)), s))
      else
        (case (if js_lt sn aScrollLeft (Fin 0) then Inr (JNum (Fin 0))
               else (case this_container s of
                       NullPtr \<Rightarrow> Inl TypeError
                     | ObjPtr \<Rightarrow>
                         if js_gt sn aScrollLeft
                              (num_of_int (el_scrollWidth (element s) - el_clientWidth (element s)))
                         then Inr (JNum (num_of_int
                                (el_scrollWidth (element s) - el_clientWidth (element s))))
                         else Inr aScrollLeft)) of
           Inl e \<Rightarrow> Inl (e, s)
         | Inr newScrollLeft \<Rightarrow>
             if strict_neq (this_scrollLeft s) newScrollLeft then
               (case this_scrollView s of
                  NullPtr \<Rightarrow> Inl (TypeError, s)
                | ObjPtr \<Rightarrow>
                    (let s1 = s\<lparr>view := view s @ [ScrollLeftUpdated newScrollLeft]\<rparr> in
                     case this_container s1 of
                       NullPtr \<Rightarrow> Inl (TypeError, s1)
                     | ObjPtr \<Rightarrow>
                         Inr (newScrollLeft,
                              s1\<lparr>element := (element s1)\<lparr>el_scrollLeft := ToNumber sn newScrollLeft\<rparr>,
                                 this_scrollLeft := newScrollLeft\<rparr>)))
             else Inr (newScrollLeft, s)))"

text \<open>
  \<open>destroy\<close>.  With a truthy \<open>useMutationObserver\<close> option it calls \<open>disconnect\<close> on
  \<open>this._mutationObserver\<close>, which throws unless that is an observer; otherwise it
  passes the field to \<open>clearInterval\<close>, which ignores what is not a handle.
\<close>

definition poc_destroy :: "poc_state \<Rightarrow> (poc_state, unit) outcome" where
  "poc_destroy s =
     (case (if truthy (useMutationObserver (this_options s)) then
              (case this_mutationObserver s of
                 MoObserver \<Rightarrow>
                   Inr (s\<lparr>observer := map_option (\<lambda>ob. ob\<lparr>mo_observing := False\<rparr>) (observer s),
                          this_mutationObserver := MoNull\<rparr>)
               | _ \<Rightarrow> Inl (TypeError, s))
            else
              Inr (s\<lparr>window := clearInterval
                       (case this_mutationObserver s of MoInterval h \<Rightarrow> Some h | _ \<Rightarrow> None)
                       (window s)\<rparr>)) of
        Inl x \<Rightarrow> Inl x
      | Inr s1 \<Rightarrow>
          (case this_container s1 of
             NullPtr \<Rightarrow> Inl (TypeError, s1)
           | ObjPtr \<Rightarrow>
               (let s2 = s1\<lparr>element :=
                           fold (\<lambda>aKey. removeEventListener aKey (OwnListener aKey))
                             eventListener_keys (element s1)\<rparr> in
                case this_scrollView s2 of
                  NullPtr \<Rightarrow> Inl (TypeError, s2)
                | ObjPtr \<Rightarrow>
                    Inr ((), s2\<lparr>view := view s2 @ [ViewDestroyed],
                                this_scrollView := NullPtr,
                                this_container := NullPtr\<rparr>))))"

text \<open>The closure \<open>_getMutationHandler\<close> returns.\<close>

definition poc_mutationHandler ::
  "(string \<Rightarrow> jsnum) \<Rightarrow> poc_state \<Rightarrow> (poc_state, unit) outcome" where
  "poc_mutationHandler sn s =
     (case this_container s of
        NullPtr \<Rightarrow> Inl (TypeError, s)
      | ObjPtr \<Rightarrow>
          (let potentialRootElement =
                 find_root (el_parents (element s)) (el_chain_end (element s));
               oldScrollTop = this_scrollTop s;
               oldScrollLeft = this_scrollLeft s in
           case this_scrollView s of
             NullPtr \<Rightarrow> Inl (TypeError, s)
           | ObjPtr \<Rightarrow>
               (let s1 = s\<lparr>view := view s @
                            [ScrollTopUpdated (JNum (Fin 0)), ScrollLeftUpdated (JNum (Fin 0))]\<rparr> in
                if potentialRootElement = ReachedNull \<or> potentialRootElement = ReachedUndefined
                then poc_destroy s1
                else
                  (let s2 = (if dims_changed (cache s1) (element s1)
                             then s1\<lparr>cache := current_dims (element s1),
                                     view := view s1 @ [ParentUpdated]\<rparr>
                             else s1) in
                   case (if strict_neq (this_scrollTop s2) (JNum (el_scrollTop (element s2)))
                         then (case poc_scrollTop sn s2 [JNum (el_scrollTop (element s2))] of
                                 Inl x \<Rightarrow> Inl x | Inr (r, s') \<Rightarrow> Inr ((), s'))
                         else if js_lt sn oldScrollTop (num_of_int (scrollHeight (cache s2)))
                         then Inr ((), s2\<lparr>view := view s2 @ [ScrollTopUpdated oldScrollTop]\<rparr>)
                         else Inr ((), s2)) of
                     Inl x \<Rightarrow> Inl x
                   | Inr (u, s3) \<Rightarrow>
                       (if strict_neq (this_scrollLeft s3) (JNum (el_scrollLeft (element s3)))
                        then (case poc_scrollLeft sn s3 [JNum (el_scrollLeft (element s3))] of
                                Inl x \<Rightarrow> Inl x | Inr (r, s') \<Rightarrow> Inr ((), s'))
                        else if js_lt sn oldScrollLeft (num_of_int (scrollWidth (cache s3)))
                        then Inr ((), s3\<lparr>view := view s3 @ [ScrollLeftUpdated oldScrollLeft]\<rparr>)
                        else Inr ((), s3))))))"

definition poc_wheel ::
  "(string \<Rightarrow> jsnum) \<Rightarrow> (real \<Rightarrow> real \<Rightarrow> jsnum) \<Rightarrow> poc_state \<Rightarrow> wheel_event \<Rightarrow>
   (poc_state, wheel_event) outcome" where
  "poc_wheel sn fadd s aEvent =
     (if defaultPrevented aEvent then Inr (aEvent, s)
      else
        (case this_container s of
           NullPtr \<Rightarrow> Inl (TypeError, s)
         | ObjPtr \<Rightarrow>
             (let currentScrollTop = el_scrollTop (element s);
                  currentScrollLeft = el_scrollLeft (element s) in
              case poc_scrollTop sn s [JNum (num_add fadd (el_scrollTop (element s)) (deltaY aEvent))] of
                Inl x \<Rightarrow> Inl x
              | Inr (r1, s1) \<Rightarrow>
                  (case this_container s1 of
                     NullPtr \<Rightarrow> Inl (TypeError, s1)
                   | ObjPtr \<Rightarrow>
                       (case poc_scrollLeft sn s1
                               [JNum (num_add fadd (el_scrollLeft (element s1)) (deltaX aEvent))] of
                          Inl x \<Rightarrow> Inl x
                        | Inr (r2, s2) \<Rightarrow>
                            (case this_container s2 of
                               NullPtr \<Rightarrow> Inl (TypeError, s2)
                             | ObjPtr \<Rightarrow>
                                 if strict_neq (JNum currentScrollTop) (JNum (el_scrollTop (element s2))) \<or>
                                    strict_neq (JNum currentScrollLeft) (JNum (el_scrollLeft (element s2)))
                                 then Inr (preventDefault aEvent, s2)
                                 else Inr (aEvent, s2)))))))"

text \<open>
  The constructor.  \<open>mo_defined\<close> says whether the global \<open>MutationObserver\<close> exists
  (reading an undeclared global throws a ReferenceError; where it exists it is a
  function, hence truthy).  The fields the constructor has not yet assigned when it
  throws are undefined.
\<close>

definition poc_new ::
  "bool \<Rightarrow> element \<Rightarrow> (callback, jsval) window \<Rightarrow> options \<Rightarrow> (poc_state, unit) outcome" where
  "poc_new mo_defined aElement w aOptions =
     (let checkInterval' = (if typeof (checkInterval aOptions) = TNumber
                            then checkInterval aOptions else JNum (Fin 300));
          s0 = \<lparr>element = aElement, window = w, view = [],
                this_container = ObjPtr, this_options = aOptions, this_scrollView = ObjPtr,
                this_scrollTop = JUndefined, this_scrollLeft = JUndefined,
                cache = current_dims aElement,
                this_mutationObserver = MoUndefined, observer = None\<rparr>
      in if \<not> mo_defined then Inl (ReferenceError, s0)
         else
           (let s1 = (if truthy (useMutationObserver aOptions) then
                        s0\<lparr>this_mutationObserver := MoObserver,
                           observer := Some \<lparr>mo_callback = debounce MutationHandler checkInterval',
                                             mo_observing = True\<rparr>\<rparr>
                      else
                        (let (h, w1) = setInterval MutationHandler checkInterval' w
                         in s0\<lparr>window := w1, this_mutationObserver := MoInterval h\<rparr>));
                e1 = (element s1)\<lparr>el_style_overflow := ''hidden''\<rparr>;
                currentPositionStyle = el_computed_position e1;
                e2 = (if currentPositionStyle \<noteq> ''absolute'' \<and> currentPositionStyle \<noteq> ''relative''
                      then e1\<lparr>el_style_position := ''relative''\<rparr> else e1);
                e3 = fold (\<lambda>aKey. addEventListener aKey (OwnListener aKey)) eventListener_keys e2
            in Inr ((), s1\<lparr>element := e3,
                           this_scrollTop := JNum (Fin 0), this_scrollLeft := JNum (Fin 0),
                           view := view s1 @ [ParentUpdated]\<rparr>)))"

text \<open>
  The browser delivers a batch of mutation records to a connected observer by calling
  its callback, the debounced handler.
\<close>

definition poc_deliver_mutations :: "poc_state \<Rightarrow> poc_state" where
  "poc_deliver_mutations s =
     (case observer s of
        None \<Rightarrow> s
      | Some ob \<Rightarrow>
          if mo_observing ob then
            (let (d, w1) = debounced_call (mo_callback ob) (window s)
             in s\<lparr>window := w1, observer := Some (ob\<lparr>mo_callback := d\<rparr>)\<rparr>)
          else s)"

text \<open>
  The browser runs the timeout with handle \<open>h\<close>: a pending timeout leaves the table and
  its callback is called.  The only timeouts this class sets call the mutation handler;
  a timeout of some other object of the page is not followed further.
\<close>

definition poc_run_timeout ::
  "(string \<Rightarrow> jsnum) \<Rightarrow> nat \<Rightarrow> poc_state \<Rightarrow> (poc_state, unit) outcome" where
  "poc_run_timeout sn h s =
     (case filter (\<lambda>t. t_handle t = h \<and> \<not> t_repeat t) (win_timers (window s)) of
        [] \<Rightarrow> Inr ((), s)
      | t # ts \<Rightarrow>
          (let s1 = s\<lparr>window := clear_timer (Some h) (window s)\<rparr> in
           case t_callback t of
             MutationHandler \<Rightarrow> poc_mutationHandler sn s1
           | IntervalHandler \<Rightarrow> Inr ((), s1)))"

section \<open>Reading outcomes, and the states the properties speak about\<close>

fun returned :: "('s, 'a) outcome \<Rightarrow> 'a option" where
  "returned (Inl x) = None"
| "returned (Inr (r, s)) = Some r"

fun final_state :: "('s, 'a) outcome \<Rightarrow> 's" where
  "final_state (Inl (e, s)) = s"
| "final_state (Inr (r, s)) = s"

text \<open>An instance that has not been destroyed holds both of its references.\<close>

definition alive :: "'a core_scheme \<Rightarrow> bool" where
  "alive s = (this_container s = ObjPtr \<and> this_scrollView s = ObjPtr)"

text \<open>A scroll offset is within \<open>[0, hi]\<close>: a finite number between the bounds.\<close>

definition in_range :: "jsval \<Rightarrow> int \<Rightarrow> bool" where
  "in_range v hi = (case v of JNum (Fin r) \<Rightarrow> 0 \<le> r \<and> r \<le> real_of_int hi | _ \<Rightarrow> False)"

text \<open>
  What the two classes' scroll methods read and write: the element, the calls the view
  has received, the two references, the options and the stored offsets.
\<close>

definition scroll_part ::
  "'z core_scheme \<Rightarrow> element \<times> view_call list \<times> ptr \<times> ptr \<times> options \<times> jsval \<times> jsval" where
  "scroll_part s =
     (element s, view s, this_container s, this_scrollView s, this_options s,
      this_scrollTop s, this_scrollLeft s)"

definition scroll_outcome ::
  "('z core_scheme, 'a) outcome \<Rightarrow>
   (error \<times> (element \<times> view_call list \<times> ptr \<times> ptr \<times> options \<times> jsval \<times> jsval)) +
   ('a \<times> (element \<times> view_call list \<times> ptr \<times> ptr \<times> options \<times> jsval \<times> jsval))" where
  "scroll_outcome = map_sum (apsnd scroll_part) (apsnd scroll_part)"

text \<open>The calls the view received between two states.\<close>

definition new_calls :: "'a core_scheme \<Rightarrow> 'b core_scheme \<Rightarrow> view_call list" where
  "new_calls s s' = drop (length (view s)) (view s')"

text \<open>The stored offsets equal (\<open>===\<close>) the element's offsets.\<close>

definition synced :: "'a core_scheme \<Rightarrow> bool" where
  "synced s =
     (strict_eq (this_scrollTop s) (JNum (el_scrollTop (element s))) \<and>
      strict_eq (this_scrollLeft s) (JNum (el_scrollLeft (element s))))"

text \<open>Concrete inputs: the options object \<open>{}\<close>, an element inside the document, a window.\<close>

definition default_options :: options where
  "default_options =
     \<lparr>disableYScrolling = JUndefined, disableXScrolling = JUndefined,
      disableTouchScrollingOnContainer = JUndefined, checkInterval = JUndefined,
      useMutationObserver = JUndefined\<rparr>"

definition example_element :: element where
  "example_element =
     \<lparr>el_scrollTop = Fin 0, el_scrollLeft = Fin 0, el_scrollHeight = 1000, el_scrollWidth = 800,
      el_clientHeight = 400, el_clientWidth = 300,
      el_parents = [OtherElement 1, DocumentBody, OtherElement 0], el_chain_end = EndNull,
      el_style_overflow = [], el_style_position = [], el_computed_position = ''static'',
      el_listeners = []\<rparr>"

definition example_window :: "(callback, jsval) window" where
  "example_window = \<lparr>win_now = 0, win_next = 1, win_timers = []\<rparr>"

definition example_sc :: sc_state where
  "example_sc = sc_new example_element example_window default_options"

definition example_poc :: poc_state where
  "example_poc =
     final_state (poc_new True example_element example_window default_options)"

text \<open>The string conversion used at concrete inputs; none of them holds a string.\<close>

definition sn0 :: "string \<Rightarrow> jsnum" where
  "sn0 s = NaN"

text \<open>
  The sum used at concrete inputs: the exact one, which is what the double sum is for the
  small integers those inputs hold.
\<close>

definition fadd0 :: "real \<Rightarrow> real \<Rightarrow> jsnum" where
  "fadd0 a b = Fin (a + b)"

definition example_wheel :: wheel_event where
  "example_wheel =
     \<lparr>defaultPrevented = False, cancelable = True, deltaX = Fin 0, deltaY = Fin 120,
      preventDefault_called = False\<rparr>"

text \<open>
  The example instances after the element has grown (client height 500 instead of the
  cached 400), still inside the document, and after it has also been taken out of the
  document.
\<close>

definition resized_sc :: sc_state where
  "resized_sc = example_sc\<lparr>element := (element example_sc)\<lparr>el_clientHeight := 500\<rparr>\<rparr>"

definition resized_poc :: poc_state where
  "resized_poc = example_poc\<lparr>element := (element example_poc)\<lparr>el_clientHeight := 500\<rparr>\<rparr>"

definition detached_sc :: sc_state where
  "detached_sc = resized_sc\<lparr>element := (element resized_sc)\<lparr>el_parents := [OtherElement 1]\<rparr>\<rparr>"

definition detached_poc :: poc_state where
  "detached_poc = resized_poc\<lparr>element := (element resized_poc)\<lparr>el_parents := [OtherElement 1]\<rparr>\<rparr>"

text \<open>The two notifications every tick starts with.\<close>

definition reset_calls :: "view_call list" where
  "reset_calls = [ScrollTopUpdated (JNum (Fin 0)), ScrollLeftUpdated (JNum (Fin 0))]"

text \<open>
  What holds of the host of a debounced callback after every event: the trace is a
  debounced one with runs spaced by the wait time, its times never grow towards the
  past, and a pending timeout for the callback, if there is one, is the one the wrapper's
  \<open>pointer\<close> names, set by the invocation at the head of the trace.
\<close>


fun entry_time :: "trace_entry \<Rightarrow> nat" where
  "entry_time (Invoked i) = i"
| "entry_time (Ran r) = r"

definition deb_inv :: "'cb \<Rightarrow> nat \<Rightarrow> 'cb deb_host \<Rightarrow> bool" where
  "deb_inv cb wt h =
     (aCallback (dh_wrapper h) = cb \<and> aWaitTime (dh_wrapper h) = wt \<and>
      debounced_trace wt (dh_trace h) \<and> spaced wt (ran_times (dh_trace h)) \<and>
      sorted_wrt (\<lambda>a b. b \<le> a) (map entry_time (dh_trace h)) \<and>
      (\<forall>e \<in> set (dh_trace h). entry_time e \<le> win_now (dh_window h)) \<and>
      (pending_for cb (dh_window h) = [] \<or>
       (\<exists>t es. pending_for cb (dh_window h) = [t] \<and>
                pointer (dh_wrapper h) = Some (t_handle t) \<and> t_delay t = wt \<and>
                dh_trace h = Invoked (t_set t) # es)))"


definition example_timer_window :: "(callback, nat) window" where
  "example_timer_window = \<lparr>win_now = 0, win_next = 1, win_timers = []\<rparr>"

definition example_burst :: "host_event list" where
  "example_burst = [Invoke, Elapse 100, Invoke, Fire 1, Elapse 300, Fire 2, Fire 2]"

text \<open>
  A PocScrollbar made with \<open>{useMutationObserver: true}\<close> for the example element, and
  the same instance after the browser has delivered one batch of mutation records.
\<close>

definition observer_options :: options where
  "observer_options = default_options\<lparr>useMutationObserver := JBool True\<rparr>"

definition observer_poc :: poc_state where
  "observer_poc =
     final_state (poc_new True example_element example_window observer_options)"

definition mutated_poc :: poc_state where
  "mutated_poc = poc_deliver_mutations observer_poc"

fun thrown :: "('s, 'a) outcome \<Rightarrow> error option" where
  "thrown (Inl (e, s)) = Some e"
| "thrown (Inr x) = None"

text \<open>An options object for the scrollbar element named \<open>xElement\<close>.\<close>

definition example_bar_options :: optval where
  "example_bar_options =
     Obj [(''xElementStyles'',
             Obj [(''width'', Prim (JStr ''8px'')), (''opacity'', Prim (JNum (Fin 1)))]),
          (''xElementClass'', Arr [Prim (JStr ''bar''), Prim (JStr ''bar-x'')]),
          (''yElementClass'', Prim (JStr ''bar''))]"

text \<open>
  What the two options amount to by their shape: the keys and the style assignments a
  non-array object stands for, and the values a class option hands to
  \<open>classList.add\<close>, namely itself when it is a non-empty string and its entries when it
  is an array.  A value is an acceptable token when its string is neither empty nor holds
  whitespace.
\<close>

fun style_keys :: "optval \<Rightarrow> string list" where
  "style_keys (Obj kvs) = map fst kvs"
| "style_keys v = []"

fun style_assignments :: "optval \<Rightarrow> effect list" where
  "style_assignments (Obj kvs) = map (\<lambda>aKey. StyleSet aKey (get_prop (Obj kvs) aKey)) (map fst kvs)"
| "style_assignments v = []"

fun class_arguments :: "optval \<Rightarrow> optval list" where
  "class_arguments (Prim (JStr c)) = (if c = [] then [] else [Prim (JStr c)])"
| "class_arguments (Arr xs) = xs"
| "class_arguments v = []"

definition acceptable_token :: "(optval \<Rightarrow> string) \<Rightarrow> optval \<Rightarrow> bool" where
  "acceptable_token ts v = (token_of ts v \<noteq> [] \<and> \<not> list_ex ascii_whitespace (token_of ts v))"

text \<open>
  The string conversion used at concrete inputs, all of whose tokens are strings; and a
  browser that lets every key of their styles be assigned.
\<close>

definition ts0 :: "optval \<Rightarrow> string" where
  "ts0 v = []"

definition any_key :: "string \<Rightarrow> bool" where
  "any_key k = True"

text \<open>
  The public operations of an instance, and the condition under which an operation is
  known to keep the stored offsets in step with the element: a scroll method is called
  without its argument or with a number other than NaN (\<open>scrollTop\<close> also with any
  non-number), a wheel event carries finite deltas, and a tick finds the container
  inside the document.
\<close>

datatype public_op = ScrollTop "jsval list" | ScrollLeft "jsval list" | Wheel wheel_event | Tick

fun drop_value :: "('s, 'a) outcome \<Rightarrow> ('s, unit) outcome" where
  "drop_value (Inl x) = Inl x"
| "drop_value (Inr (r, s)) = Inr ((), s)"

fun sc_apply ::
  "(string \<Rightarrow> jsnum) \<Rightarrow> (real \<Rightarrow> real \<Rightarrow> jsnum) \<Rightarrow> sc_state \<Rightarrow> public_op \<Rightarrow>
   (sc_state, unit) outcome" where
  "sc_apply sn fadd s (ScrollTop args) = drop_value (sc_scrollTop sn s args)"
| "sc_apply sn fadd s (ScrollLeft args) = drop_value (sc_scrollLeft sn s args)"
| "sc_apply sn fadd s (Wheel e) = drop_value (sc_wheel sn fadd s e)"
| "sc_apply sn fadd s Tick = sc_intervalHandler sn s"

fun poc_apply ::
  "(string \<Rightarrow> jsnum) \<Rightarrow> (real \<Rightarrow> real \<Rightarrow> jsnum) \<Rightarrow> poc_state \<Rightarrow> public_op \<Rightarrow>
   (poc_state, unit) outcome" where
  "poc_apply sn fadd s (ScrollTop args) = drop_value (poc_scrollTop sn s args)"
| "poc_apply sn fadd s (ScrollLeft args) = drop_value (poc_scrollLeft sn s args)"
| "poc_apply sn fadd s (Wheel e) = drop_value (poc_wheel sn fadd s e)"
| "poc_apply sn fadd s Tick = poc_mutationHandler sn s"

fun is_finite :: "jsnum \<Rightarrow> bool" where
  "is_finite (Fin r) = True"
| "is_finite n = False"

definition attached :: "'a core_scheme \<Rightarrow> bool" where
  "attached s = (find_root (el_parents (element s)) (el_chain_end (element s)) = ReachedBody)"

fun op_ok :: "'a core_scheme \<Rightarrow> public_op \<Rightarrow> bool" where
  "op_ok s (ScrollTop args) = (argument args 0 \<noteq> JNum NaN)"
| "op_ok s (ScrollLeft args) =
     (args = [] \<or> (typeof (argument args 0) = TNumber \<and> argument args 0 \<noteq> JNum NaN))"
| "op_ok s (Wheel e) = (is_finite (deltaX e) \<and> is_finite (deltaY e))"
| "op_ok s Tick = attached s"

text \<open>
  The conditions under which a tick brings the stored offsets back in step whatever they
  were: scrolling is not disabled in either direction, and the element's offsets lie
  within their scroll ranges, as the offsets a browser reports do.
\<close>

definition scrolling_enabled :: "'a core_scheme \<Rightarrow> bool" where
  "scrolling_enabled s =
     (\<not> truthy (disableYScrolling (this_options s)) \<and>
      \<not> truthy (disableXScrolling (this_options s)))"

definition offsets_in_range :: "'a core_scheme \<Rightarrow> bool" where
  "offsets_in_range s =
     (in_range (JNum (el_scrollTop (element s)))
        (el_scrollHeight (element s) - el_clientHeight (element s)) \<and>
      in_range (JNum (el_scrollLeft (element s)))
        (el_scrollWidth (element s) - el_clientWidth (element s)))"

text \<open>
  The example element, scrolled down by 50 before an instance is made for it; and the
  example instances after the element has been scrolled to 50 behind their backs.
\<close>

definition scrolled_element :: element where
  "scrolled_element = example_element\<lparr>el_scrollTop := Fin 50\<rparr>"

definition drifted_sc :: sc_state where
  "drifted_sc = example_sc\<lparr>element := (element example_sc)\<lparr>el_scrollTop := Fin 50\<rparr>\<rparr>"

definition drifted_poc :: poc_state where
  "drifted_poc = example_poc\<lparr>element := (element example_poc)\<lparr>el_scrollTop := Fin 50\<rparr>\<rparr>"

section \<open>Properties\<close>

lemma js_lt_num [simp]: "js_lt sn (JNum a) b = num_lt a b"
  by (simp add: js_lt_def)

lemma js_gt_num [simp]: "js_gt sn (JNum a) b = num_lt b a"
  by (simp add: js_gt_def)

lemma clamp_in_range:
  assumes "n \<noteq> NaN" and "0 \<le> hi"
  shows "\<exists>m. (if num_lt n (Fin 0) then Fin 0
              else if num_lt (num_of_int hi) n then num_of_int hi else n) = m \<and>
             in_range (JNum m) hi"
  using assms by (cases n) (auto simp: in_range_def num_of_int_def)

lemma sc_scrollTop_number:
  assumes "alive s" and "\<not> truthy (disableYScrolling (this_options s))"
  shows "sc_scrollTop sn s [JNum n] =
    (let m = (if num_lt n (Fin 0) then Fin 0
              else if num_lt (num_of_int (el_scrollHeight (element s) - el_clientHeight (element s))) n
              then num_of_int (el_scrollHeight (element s) - el_clientHeight (element s))
              else n) in
     Inr (JNum m,
          if strict_neq (this_scrollTop s) (JNum m)
          then s\<lparr>view := view s @ [ScrollTopUpdated (JNum m)],
                 element := (element s)\<lparr>el_scrollTop := m\<rparr>,
                 this_scrollTop := JNum m\<rparr>
          else s))"
  using assms by (simp add: sc_scrollTop_def argument_def Let_def alive_def)

lemma sc_scrollLeft_number:
  assumes "alive s" and "\<not> truthy (disableXScrolling (this_options s))"
  shows "sc_scrollLeft sn s [JNum n] =
    (let m = (if num_lt n (Fin 0) then Fin 0
              else if num_lt (num_of_int (el_scrollWidth (element s) - el_clientWidth (element s))) n
              then num_of_int (el_scrollWidth (element s) - el_clientWidth (element s))
              else n) in
     Inr (JNum m,
          if strict_neq (this_scrollLeft s) (JNum m)
          then s\<lparr>view := view s @ [ScrollLeftUpdated (JNum m)],
                 element := (element s)\<lparr>el_scrollLeft := m\<rparr>,
                 this_scrollLeft := JNum m\<rparr>
          else s))"
  using assms by (simp add: sc_scrollLeft_def argument_def Let_def alive_def)

lemma poc_scrollTop_number:
  assumes "alive s" and "\<not> truthy (disableYScrolling (this_options s))"
  shows "poc_scrollTop sn s [JNum n] =
    (let m = (if num_lt n (Fin 0) then Fin 0
              else if num_lt (num_of_int (el_scrollHeight (element s) - el_clientHeight (element s))) n
              then num_of_int (el_scrollHeight (element s) - el_clientHeight (element s))
              else n) in
     Inr (JNum m,
          if strict_neq (this_scrollTop s) (JNum m)
          then s\<lparr>view := view s @ [ScrollTopUpdated (JNum m)],
                 element := (element s)\<lparr>el_scrollTop := m\<rparr>,
                 this_scrollTop := JNum m\<rparr>
          else s))"
  using assms by (simp add: poc_scrollTop_def argument_def Let_def alive_def)

lemma poc_scrollLeft_number:
  assumes "alive s" and "\<not> truthy (disableXScrolling (this_options s))"
  shows "poc_scrollLeft sn s [JNum n] =
    (let m = (if num_lt n (Fin 0) then Fin 0
              else if num_lt (num_of_int (el_scrollWidth (element s) - el_clientWidth (element s))) n
              then num_of_int (el_scrollWidth (element s) - el_clientWidth (element s))
              else n) in
     Inr (JNum m,
          if strict_neq (this_scrollLeft s) (JNum m)
          then s\<lparr>view := view s @ [ScrollLeftUpdated (JNum m)],
                 element := (element s)\<lparr>el_scrollLeft := m\<rparr>,
                 this_scrollLeft := JNum m\<rparr>
          else s))"
  using assms by (simp add: poc_scrollLeft_def argument_def Let_def alive_def)

subsection \<open>C1: the scroll methods clamp, write and notify\<close>

text \<open>
  C1 as stated: for every number \<open>v\<close>, with the disabling option unset, \<open>scrollTop(v)\<close>
  returns a value in \<open>[0, scrollHeight - clientHeight]\<close>.  NaN is a number
  (\<open>typeof NaN\<close> is \<open>'number'\<close>), neither comparison of the method holds for it, and the
  method returns it: on a fresh instance over the example element, \<open>scrollTop(NaN)\<close>
  returns NaN, which is not in the range.
\<close>

theorem scrollTop_NaN_not_clamped:
  "typeof (JNum NaN) = TNumber \<and>
   \<not> truthy (disableYScrolling (this_options example_sc)) \<and>
   returned (sc_scrollTop sn0 example_sc [JNum NaN]) = Some (JNum NaN) \<and>
   \<not> in_range (JNum NaN)
        (el_scrollHeight (element example_sc) - el_clientHeight (element example_sc))"
  by code_simp

text \<open>
  C1, amended: on an instance that has not been destroyed, over an element whose scroll
  size is at least its client size, and with the disabling options unset, \<open>scrollTop(v)\<close>
  and \<open>scrollLeft(v)\<close> called with a number \<open>v\<close> other than NaN return a value \<open>m\<close> in
  \<open>[0, scrollHeight - clientHeight]\<close> (respectively \<open>[0, scrollWidth - clientWidth]\<close>);
  when \<open>m\<close> differs (\<open>!==\<close>) from the stored offset, the view is notified with \<open>m\<close>,
  \<open>m\<close> is written to the element's scroll offset and stored, and nothing else changes;
  when it does not differ, nothing changes.  This holds for ScrollContainer's two methods
  and for PocScrollbar's \<open>scrollTop\<close>.
\<close>

theorem scroll_offset_clamped:
  assumes "n \<noteq> NaN"
    and "alive s"
    and "\<not> truthy (disableYScrolling (this_options s))"
    and "\<not> truthy (disableXScrolling (this_options s))"
    and "el_clientHeight (element s) \<le> el_scrollHeight (element s)"
    and "el_clientWidth (element s) \<le> el_scrollWidth (element s)"
    and "alive p"
    and "\<not> truthy (disableYScrolling (this_options p))"
    and "el_clientHeight (element p) \<le> el_scrollHeight (element p)"
  shows
    "(\<exists>m. in_range (JNum m) (el_scrollHeight (element s) - el_clientHeight (element s)) \<and>
          sc_scrollTop sn s [JNum n] =
            Inr (JNum m,
                 if strict_neq (this_scrollTop s) (JNum m)
                 then s\<lparr>view := view s @ [ScrollTopUpdated (JNum m)],
                        element := (element s)\<lparr>el_scrollTop := m\<rparr>,
                        this_scrollTop := JNum m\<rparr>
                 else s)) \<and>
     (\<exists>m. in_range (JNum m) (el_scrollWidth (element s) - el_clientWidth (element s)) \<and>
          sc_scrollLeft sn s [JNum n] =
            Inr (JNum m,
                 if strict_neq (this_scrollLeft s) (JNum m)
                 then s\<lparr>view := view s @ [ScrollLeftUpdated (JNum m)],
                        element := (element s)\<lparr>el_scrollLeft := m\<rparr>,
                        this_scrollLeft := JNum m\<rparr>
                 else s)) \<and>
     (\<exists>m. in_range (JNum m) (el_scrollHeight (element p) - el_clientHeight (element p)) \<and>
          poc_scrollTop sn p [JNum n] =
            Inr (JNum m,
                 if strict_neq (this_scrollTop p) (JNum m)
                 then p\<lparr>view := view p @ [ScrollTopUpdated (JNum m)],
                        element := (element p)\<lparr>el_scrollTop := m\<rparr>,
                        this_scrollTop := JNum m\<rparr>
                 else p))"
proof -
  have top: "0 \<le> el_scrollHeight (element s) - el_clientHeight (element s)"
    and left: "0 \<le> el_scrollWidth (element s) - el_clientWidth (element s)"
    and ptop: "0 \<le> el_scrollHeight (element p) - el_clientHeight (element p)"
    using assms by simp_all
  from clamp_in_range [OF assms(1) top] sc_scrollTop_number [OF assms(2,3), of sn n]
  have a: "\<exists>m. in_range (JNum m) (el_scrollHeight (element s) - el_clientHeight (element s)) \<and>
          sc_scrollTop sn s [JNum n] =
            Inr (JNum m,
                 if strict_neq (this_scrollTop s) (JNum m)
                 then s\<lparr>view := view s @ [ScrollTopUpdated (JNum m)],
                        element := (element s)\<lparr>el_scrollTop := m\<rparr>,
                        this_scrollTop := JNum m\<rparr>
                 else s)"
    by (simp only: Let_def) blast
  from clamp_in_range [OF assms(1) left] sc_scrollLeft_number [OF assms(2,4), of sn n]
  have b: "\<exists>m. in_range (JNum m) (el_scrollWidth (element s) - el_clientWidth (element s)) \<and>
          sc_scrollLeft sn s [JNum n] =
            Inr (JNum m,
                 if strict_neq (this_scrollLeft s) (JNum m)
                 then s\<lparr>view := view s @ [ScrollLeftUpdated (JNum m)],
                        element := (element s)\<lparr>el_scrollLeft := m\<rparr>,
                        this_scrollLeft := JNum m\<rparr>
                 else s)"
    by (simp only: Let_def) blast
  from clamp_in_range [OF assms(1) ptop] poc_scrollTop_number [OF assms(7,8), of sn n]
  have c: "\<exists>m. in_range (JNum m) (el_scrollHeight (element p) - el_clientHeight (element p)) \<and>
          poc_scrollTop sn p [JNum n] =
            Inr (JNum m,
                 if strict_neq (this_scrollTop p) (JNum m)
                 then p\<lparr>view := view p @ [ScrollTopUpdated (JNum m)],
                        element := (element p)\<lparr>el_scrollTop := m\<rparr>,
                        this_scrollTop := JNum m\<rparr>
                 else p)"
    by (simp only: Let_def) blast
  from a b c show ?thesis by blast
qed

theorem scroll_offset_clamped_witness:
  "Fin 5000 \<noteq> NaN \<and> alive example_sc \<and>
   \<not> truthy (disableYScrolling (this_options example_sc)) \<and>
   \<not> truthy (disableXScrolling (this_options example_sc)) \<and>
   el_clientHeight (element example_sc) \<le> el_scrollHeight (element example_sc) \<and>
   el_clientWidth (element example_sc) \<le> el_scrollWidth (element example_sc) \<and>
   alive example_poc \<and>
   \<not> truthy (disableYScrolling (this_options example_poc)) \<and>
   el_clientHeight (element example_poc) \<le> el_scrollHeight (element example_poc) \<and>
   (\<exists>m. in_range (JNum m)
          (el_scrollHeight (element example_sc) - el_clientHeight (element example_sc)) \<and>
        sc_scrollTop sn0 example_sc [JNum (Fin 5000)] =
          Inr (JNum m,
               if strict_neq (this_scrollTop example_sc) (JNum m)
               then example_sc\<lparr>view := view example_sc @ [ScrollTopUpdated (JNum m)],
                      element := (element example_sc)\<lparr>el_scrollTop := m\<rparr>,
                      this_scrollTop := JNum m\<rparr>
               else example_sc)) \<and>
   (\<exists>m. in_range (JNum m)
          (el_scrollWidth (element example_sc) - el_clientWidth (element example_sc)) \<and>
        sc_scrollLeft sn0 example_sc [JNum (Fin 5000)] =
          Inr (JNum m,
               if strict_neq (this_scrollLeft example_sc) (JNum m)
               then example_sc\<lparr>view := view example_sc @ [ScrollLeftUpdated (JNum m)],
                      element := (element example_sc)\<lparr>el_scrollLeft := m\<rparr>,
                      this_scrollLeft := JNum m\<rparr>
               else example_sc)) \<and>
   (\<exists>m. in_range (JNum m)
          (el_scrollHeight (element example_poc) - el_clientHeight (element example_poc)) \<and>
        poc_scrollTop sn0 example_poc [JNum (Fin 5000)] =
          Inr (JNum m,
               if strict_neq (this_scrollTop example_poc) (JNum m)
               then example_poc\<lparr>view := view example_poc @ [ScrollTopUpdated (JNum m)],
                      element := (element example_poc)\<lparr>el_scrollTop := m\<rparr>,
                      this_scrollTop := JNum m\<rparr>
               else example_poc))"
proof -
  have h1: "Fin 5000 \<noteq> NaN" by simp
  have h2: "alive example_sc" by code_simp
  have h3: "\<not> truthy (disableYScrolling (this_options example_sc))" by code_simp
  have h4: "\<not> truthy (disableXScrolling (this_options example_sc))" by code_simp
  have h5: "el_clientHeight (element example_sc) \<le> el_scrollHeight (element example_sc)"
    by code_simp
  have h6: "el_clientWidth (element example_sc) \<le> el_scrollWidth (element example_sc)"
    by code_simp
  have h7: "alive example_poc" by code_simp
  have h8: "\<not> truthy (disableYScrolling (this_options example_poc))" by code_simp
  have h9: "el_clientHeight (element example_poc) \<le> el_scrollHeight (element example_poc)"
    by code_simp
  note c = scroll_offset_clamped [OF h1 h2 h3 h4 h5 h6 h7 h8 h9, of sn0]
  show ?thesis
    by (intro conjI h1 h2 h3 h4 h5 h6 h7 h8 h9 c [THEN conjunct1]
          c [THEN conjunct2, THEN conjunct1] c [THEN conjunct2, THEN conjunct2])
qed

subsection \<open>C2: a non-number argument\<close>

text \<open>
  C2: \<open>scrollTop\<close> and \<open>scrollLeft\<close> called with an argument that is not a number act
  as pure getters.  \<open>scrollTop\<close> tests \<open>typeof aScrollTop !== 'number'\<close> and does so;
  \<open>scrollLeft\<close>, whose comment promises the same, tests \<open>arguments.length === 0\<close>.
  On a fresh instance over the example element (both offsets 0), \<open>scrollTop(null)\<close>
  returns 0 and changes nothing, whereas \<open>scrollLeft(null)\<close> returns null, stores null
  as the offset and notifies the view with null, in both classes.
\<close>

theorem scrollLeft_null_is_not_a_getter:
  "typeof JNull \<noteq> TNumber \<and>
   \<not> truthy (disableXScrolling (this_options example_sc)) \<and>
   sc_scrollTop sn0 example_sc [JNull] = Inr (JNum (Fin 0), example_sc) \<and>
   el_scrollLeft (element example_sc) = Fin 0 \<and>
   this_scrollLeft example_sc = JNum (Fin 0) \<and>
   returned (sc_scrollLeft sn0 example_sc [JNull]) = Some JNull \<and>
   this_scrollLeft (final_state (sc_scrollLeft sn0 example_sc [JNull])) = JNull \<and>
   new_calls example_sc (final_state (sc_scrollLeft sn0 example_sc [JNull])) =
     [ScrollLeftUpdated JNull] \<and>
   \<not> truthy (disableXScrolling (this_options example_poc)) \<and>
   el_scrollLeft (element example_poc) = Fin 0 \<and>
   this_scrollLeft example_poc = JNum (Fin 0) \<and>
   returned (poc_scrollLeft sn0 example_poc [JNull]) = Some JNull \<and>
   this_scrollLeft (final_state (poc_scrollLeft sn0 example_poc [JNull])) = JNull \<and>
   new_calls example_poc (final_state (poc_scrollLeft sn0 example_poc [JNull])) =
     [ScrollLeftUpdated JNull]"
  by code_simp

theorem scrollLeft_null_is_not_a_getter_witness:
  "returned (sc_scrollLeft sn0 example_sc [JNull]) \<noteq>
     Some (JNum (el_scrollLeft (element example_sc))) \<and>
   final_state (sc_scrollLeft sn0 example_sc [JNull]) \<noteq> example_sc \<and>
   returned (poc_scrollLeft sn0 example_poc [JNull]) \<noteq>
     Some (JNum (el_scrollLeft (element example_poc))) \<and>
   final_state (poc_scrollLeft sn0 example_poc [JNull]) \<noteq> example_poc"
proof -
  note c = scrollLeft_null_is_not_a_getter
  have a: "this_scrollLeft (final_state (sc_scrollLeft sn0 example_sc [JNull])) \<noteq>
           this_scrollLeft example_sc"
    using c by simp
  have b: "this_scrollLeft (final_state (poc_scrollLeft sn0 example_poc [JNull])) \<noteq>
           this_scrollLeft example_poc"
    using c by simp
  from a have a': "final_state (sc_scrollLeft sn0 example_sc [JNull]) \<noteq> example_sc"
    by (rule contrapos_nn) simp
  from b have b': "final_state (poc_scrollLeft sn0 example_poc [JNull]) \<noteq> example_poc"
    by (rule contrapos_nn) simp
  from c a' b' show ?thesis by simp
qed

subsection \<open>C9: the scroll methods of the two classes agree\<close>

text \<open>
  C9: from states that agree on the element, the view, the references, the options and
  the stored offsets, \<open>scrollTop\<close> and \<open>scrollLeft\<close> of ScrollContainer and of
  PocScrollbar, called with the same arguments, both return or both throw, with the same
  value or error, and leave states that agree on those parts again.
\<close>

theorem scroll_methods_agree:
  assumes "scroll_part s = scroll_part p"
  shows "scroll_outcome (sc_scrollTop sn s args) = scroll_outcome (poc_scrollTop sn p args) \<and>
         scroll_outcome (sc_scrollLeft sn s args) = scroll_outcome (poc_scrollLeft sn p args)"
proof -
  from assms have eqs: "element s = element p" "view s = view p"
    "this_container s = this_container p" "this_options s = this_options p"
    "this_scrollView s = this_scrollView p" "this_scrollTop s = this_scrollTop p"
    "this_scrollLeft s = this_scrollLeft p"
    by (simp_all add: scroll_part_def)
  have top: "scroll_outcome (sc_scrollTop sn s args) = scroll_outcome (poc_scrollTop sn p args)"
    unfolding sc_scrollTop_def poc_scrollTop_def scroll_outcome_def Let_def
    by (simp add: eqs scroll_part_def split: ptr.splits)
  have left: "scroll_outcome (sc_scrollLeft sn s args) = scroll_outcome (poc_scrollLeft sn p args)"
    unfolding sc_scrollLeft_def poc_scrollLeft_def scroll_outcome_def Let_def
    by (simp add: eqs scroll_part_def split: ptr.splits)
  from top left show ?thesis by (rule conjI)
qed

theorem scroll_methods_agree_witness:
  "scroll_part example_sc = scroll_part example_poc \<and>
   scroll_outcome (sc_scrollTop sn0 example_sc [JNum (Fin 50)]) =
     scroll_outcome (poc_scrollTop sn0 example_poc [JNum (Fin 50)]) \<and>
   scroll_outcome (sc_scrollLeft sn0 example_sc [JNum (Fin 50)]) =
     scroll_outcome (poc_scrollLeft sn0 example_poc [JNum (Fin 50)])"
proof -
  have h: "scroll_part example_sc = scroll_part example_poc" by code_simp
  from h scroll_methods_agree [OF h, of sn0 "[JNum (Fin 50)]"] show ?thesis by (rule conjI)
qed

subsection \<open>C4: the wheel listener\<close>


lemma sc_scrollTop_frame:
  assumes "alive s"
  shows "\<exists>r s'. sc_scrollTop sn s args = Inr (r, s') \<and> alive s' \<and> cache s' = cache s \<and>
     window s' = window s \<and> this_options s' = this_options s \<and>
     this_scrollLeft s' = this_scrollLeft s \<and> this_intervalPointer s' = this_intervalPointer s \<and>
     (\<exists>m. element s' = (element s)\<lparr>el_scrollTop := m\<rparr>) \<and>
     (\<exists>cs. view s' = view s @ cs \<and> ParentUpdated \<notin> set cs)"
  using assms unfolding sc_scrollTop_def alive_def Let_def
  apply (simp split: ptr.splits)
  apply (intro conjI impI)
  apply (auto intro: exI [of _ "el_scrollTop (element s)"])
  done

lemma sc_scrollLeft_frame:
  assumes "alive s"
  shows "\<exists>r s'. sc_scrollLeft sn s args = Inr (r, s') \<and> alive s' \<and> cache s' = cache s \<and>
     window s' = window s \<and> this_options s' = this_options s \<and>
     this_scrollTop s' = this_scrollTop s \<and> this_intervalPointer s' = this_intervalPointer s \<and>
     (\<exists>m. element s' = (element s)\<lparr>el_scrollLeft := m\<rparr>) \<and>
     (\<exists>cs. view s' = view s @ cs \<and> ParentUpdated \<notin> set cs)"
  using assms unfolding sc_scrollLeft_def alive_def Let_def
  apply (simp split: ptr.splits)
  apply (intro conjI impI)
  apply (auto intro: exI [of _ "el_scrollLeft (element s)"])
  done


lemma poc_scrollTop_frame:
  assumes "alive s"
  shows "\<exists>r s'. poc_scrollTop sn s args = Inr (r, s') \<and> alive s' \<and> cache s' = cache s \<and>
     window s' = window s \<and> this_options s' = this_options s \<and>
     this_scrollLeft s' = this_scrollLeft s \<and> this_mutationObserver s' = this_mutationObserver s \<and> observer s' = observer s \<and>
     (\<exists>m. element s' = (element s)\<lparr>el_scrollTop := m\<rparr>) \<and>
     (\<exists>cs. view s' = view s @ cs \<and> ParentUpdated \<notin> set cs)"
  using assms unfolding poc_scrollTop_def alive_def Let_def
  apply (simp split: ptr.splits)
  apply (intro conjI impI)
  apply (auto intro: exI [of _ "el_scrollTop (element s)"])
  done

lemma poc_scrollLeft_frame:
  assumes "alive s"
  shows "\<exists>r s'. poc_scrollLeft sn s args = Inr (r, s') \<and> alive s' \<and> cache s' = cache s \<and>
     window s' = window s \<and> this_options s' = this_options s \<and>
     this_scrollTop s' = this_scrollTop s \<and> this_mutationObserver s' = this_mutationObserver s \<and> observer s' = observer s \<and>
     (\<exists>m. element s' = (element s)\<lparr>el_scrollLeft := m\<rparr>) \<and>
     (\<exists>cs. view s' = view s @ cs \<and> ParentUpdated \<notin> set cs)"
  using assms unfolding poc_scrollLeft_def alive_def Let_def
  apply (simp split: ptr.splits)
  apply (intro conjI impI)
  apply (auto intro: exI [of _ "el_scrollLeft (element s)"])
  done




subsection \<open>C5 and C10: the change-detection handler\<close>

lemma sc_tick_detached:
  assumes "alive s"
    and "find_root (el_parents (element s)) (el_chain_end (element s)) = ReachedNull \<or>
         find_root (el_parents (element s)) (el_chain_end (element s)) = ReachedUndefined"
  shows "sc_intervalHandler sn s = sc_destroy (s\<lparr>view := view s @ reset_calls\<rparr>)"
  using assms by (simp add: sc_intervalHandler_def alive_def Let_def reset_calls_def)

lemma sc_tick_attached:
  assumes "alive s"
    and "find_root (el_parents (element s)) (el_chain_end (element s)) = ReachedBody"
  shows "\<exists>s'. sc_intervalHandler sn s = Inr ((), s') \<and>
     (ParentUpdated \<in> set (new_calls s s') \<longleftrightarrow> dims_changed (cache s) (element s)) \<and>
     cache s' = (if dims_changed (cache s) (element s) then current_dims (element s) else cache s)"
proof -
  define s1 where "s1 = s\<lparr>view := view s @
      [ScrollTopUpdated (JNum (Fin 0)), ScrollLeftUpdated (JNum (Fin 0))]\<rparr>"
  define s2 where "s2 = (if dims_changed (cache s1) (element s1)
                         then s1\<lparr>cache := current_dims (element s1), view := view s1 @ [ParentUpdated]\<rparr>
                         else s1)"
  have a2: "alive s2" using assms(1) by (simp add: s2_def s1_def alive_def)
  have c2: "cache s2 = (if dims_changed (cache s) (element s) then current_dims (element s) else cache s)"
    by (simp add: s2_def s1_def)
  have v2: "\<exists>cs. view s2 = view s @ cs \<and> (ParentUpdated \<in> set cs \<longleftrightarrow> dims_changed (cache s) (element s))"
    by (simp add: s2_def s1_def)
  define t3 where "t3 = (if strict_neq (this_scrollTop s2) (JNum (el_scrollTop (element s2)))
                         then (case sc_scrollTop sn s2 [JNum (el_scrollTop (element s2))] of
                                 Inl x \<Rightarrow> Inl x | Inr (r, s') \<Rightarrow> Inr ((), s'))
                         else if js_lt sn (this_scrollTop s) (num_of_int (scrollHeight (cache s2)))
                         then Inr ((), s2\<lparr>view := view s2 @ [ScrollTopUpdated (this_scrollTop s)]\<rparr>)
                         else Inr ((), s2))"
  have "\<exists>s3. t3 = Inr ((), s3) \<and> alive s3 \<and> cache s3 = cache s2 \<and>
             (\<exists>cs. view s3 = view s2 @ cs \<and> ParentUpdated \<notin> set cs)"
    using sc_scrollTop_frame [OF a2, of sn "[JNum (el_scrollTop (element s2))]"] a2
    by (auto simp: t3_def alive_def)
  then obtain s3 where t3: "t3 = Inr ((), s3)" and a3: "alive s3" and c3: "cache s3 = cache s2"
    and v3: "\<exists>cs. view s3 = view s2 @ cs \<and> ParentUpdated \<notin> set cs" by blast
  define t4 where "t4 = (if strict_neq (this_scrollLeft s3) (JNum (el_scrollLeft (element s3)))
                        then (case sc_scrollLeft sn s3 [JNum (el_scrollLeft (element s3))] of
                                Inl x \<Rightarrow> Inl x | Inr (r, s') \<Rightarrow> Inr ((), s'))
                        else if js_lt sn (this_scrollLeft s) (num_of_int (scrollWidth (cache s3)))
                        then Inr ((), s3\<lparr>view := view s3 @ [ScrollLeftUpdated (this_scrollLeft s)]\<rparr>)
                        else Inr ((), s3))"
  have "\<exists>s4. t4 = Inr ((), s4) \<and> alive s4 \<and> cache s4 = cache s3 \<and>
             (\<exists>cs. view s4 = view s3 @ cs \<and> ParentUpdated \<notin> set cs)"
    using sc_scrollLeft_frame [OF a3, of sn "[JNum (el_scrollLeft (element s3))]"] a3
    by (auto simp: t4_def alive_def)
  then obtain s4 where t4: "t4 = Inr ((), s4)" and c4: "cache s4 = cache s3"
    and v4: "\<exists>cs. view s4 = view s3 @ cs \<and> ParentUpdated \<notin> set cs" by blast
  have run: "sc_intervalHandler sn s = t4"
    using assms t3
    by (simp add: sc_intervalHandler_def alive_def Let_def t4_def t3_def [symmetric]
          s2_def [symmetric] s1_def [symmetric])
  from v2 v3 v4 have "ParentUpdated \<in> set (new_calls s s4) \<longleftrightarrow> dims_changed (cache s) (element s)"
    by (auto simp: new_calls_def)
  with run t4 c4 c3 c2 show ?thesis by simp
qed

lemma poc_tick_detached:
  assumes "alive s"
    and "find_root (el_parents (element s)) (el_chain_end (element s)) = ReachedNull \<or>
         find_root (el_parents (element s)) (el_chain_end (element s)) = ReachedUndefined"
  shows "poc_mutationHandler sn s = poc_destroy (s\<lparr>view := view s @ reset_calls\<rparr>)"
  using assms by (simp add: poc_mutationHandler_def alive_def Let_def reset_calls_def)

lemma poc_tick_attached:
  assumes "alive s"
    and "find_root (el_parents (element s)) (el_chain_end (element s)) = ReachedBody"
  shows "\<exists>s'. poc_mutationHandler sn s = Inr ((), s') \<and>
     (ParentUpdated \<in> set (new_calls s s') \<longleftrightarrow> dims_changed (cache s) (element s)) \<and>
     cache s' = (if dims_changed (cache s) (element s) then current_dims (element s) else cache s)"
proof -
  define s1 where "s1 = s\<lparr>view := view s @
      [ScrollTopUpdated (JNum (Fin 0)), ScrollLeftUpdated (JNum (Fin 0))]\<rparr>"
  define s2 where "s2 = (if dims_changed (cache s1) (element s1)
                         then s1\<lparr>cache := current_dims (element s1), view := view s1 @ [ParentUpdated]\<rparr>
                         else s1)"
  have a2: "alive s2" using assms(1) by (simp add: s2_def s1_def alive_def)
  have c2: "cache s2 = (if dims_changed (cache s) (element s) then current_dims (element s) else cache s)"
    by (simp add: s2_def s1_def)
  have v2: "\<exists>cs. view s2 = view s @ cs \<and> (ParentUpdated \<in> set cs \<longleftrightarrow> dims_changed (cache s) (element s))"
    by (simp add: s2_def s1_def)
  define t3 where "t3 = (if strict_neq (this_scrollTop s2) (JNum (el_scrollTop (element s2)))
                         then (case poc_scrollTop sn s2 [JNum (el_scrollTop (element s2))] of
                                 Inl x \<Rightarrow> Inl x | Inr (r, s') \<Rightarrow> Inr ((), s'))
                         else if js_lt sn (this_scrollTop s) (num_of_int (scrollHeight (cache s2)))
                         then Inr ((), s2\<lparr>view := view s2 @ [ScrollTopUpdated (this_scrollTop s)]\<rparr>)
                         else Inr ((), s2))"
  have "\<exists>s3. t3 = Inr ((), s3) \<and> alive s3 \<and> cache s3 = cache s2 \<and>
             (\<exists>cs. view s3 = view s2 @ cs \<and> ParentUpdated \<notin> set cs)"
    using poc_scrollTop_frame [OF a2, of sn "[JNum (el_scrollTop (element s2))]"] a2
    by (auto simp: t3_def alive_def)
  then obtain s3 where t3: "t3 = Inr ((), s3)" and a3: "alive s3" and c3: "cache s3 = cache s2"
    and v3: "\<exists>cs. view s3 = view s2 @ cs \<and> ParentUpdated \<notin> set cs" by blast
  define t4 where "t4 = (if strict_neq (this_scrollLeft s3) (JNum (el_scrollLeft (element s3)))
                        then (case poc_scrollLeft sn s3 [JNum (el_scrollLeft (element s3))] of
                                Inl x \<Rightarrow> Inl x | Inr (r, s') \<Rightarrow> Inr ((), s'))
                        else if js_lt sn (this_scrollLeft s) (num_of_int (scrollWidth (cache s3)))
                        then Inr ((), s3\<lparr>view := view s3 @ [ScrollLeftUpdated (this_scrollLeft s)]\<rparr>)
                        else Inr ((), s3))"
  have "\<exists>s4. t4 = Inr ((), s4) \<and> alive s4 \<and> cache s4 = cache s3 \<and>
             (\<exists>cs. view s4 = view s3 @ cs \<and> ParentUpdated \<notin> set cs)"
    using poc_scrollLeft_frame [OF a3, of sn "[JNum (el_scrollLeft (element s3))]"] a3
    by (auto simp: t4_def alive_def)
  then obtain s4 where t4: "t4 = Inr ((), s4)" and c4: "cache s4 = cache s3"
    and v4: "\<exists>cs. view s4 = view s3 @ cs \<and> ParentUpdated \<notin> set cs" by blast
  have run: "poc_mutationHandler sn s = t4"
    using assms t3
    by (simp add: poc_mutationHandler_def alive_def Let_def t4_def t3_def [symmetric]
          s2_def [symmetric] s1_def [symmetric])
  from v2 v3 v4 have "ParentUpdated \<in> set (new_calls s s4) \<longleftrightarrow> dims_changed (cache s) (element s)"
    by (auto simp: new_calls_def)
  with run t4 c4 c3 c2 show ?thesis by simp
qed

text \<open>
  C5 as stated: on each tick \<open>parentUpdated\<close> is called if and only if one of the four
  metrics differs from the cached ones, and the cache is then refreshed.  On a tick that
  finds the container outside the document the handler destroys the instance and returns
  before it compares anything: for the example instance whose element has grown and has
  left the document, the metrics differ from the cache, the tick returns, the view has
  received no \<open>parentUpdated\<close>, and the cache still holds the old metrics.
\<close>

theorem detached_tick_skips_dimension_check:
  "dims_changed (cache detached_sc) (element detached_sc) \<and>
   returned (sc_intervalHandler sn0 detached_sc) = Some () \<and>
   ParentUpdated \<notin> set (new_calls detached_sc (final_state (sc_intervalHandler sn0 detached_sc))) \<and>
   cache (final_state (sc_intervalHandler sn0 detached_sc)) = cache detached_sc \<and>
   cache detached_sc \<noteq> current_dims (element detached_sc)"
  by code_simp

text \<open>
  C5, amended: on each tick that finds the container inside the document (the walk
  reaches \<open>document.body\<close>), on an instance that has not been destroyed, the handler
  returns normally, the view receives \<open>parentUpdated\<close> during the tick if and only if at
  least one of clientHeight, clientWidth, scrollHeight, scrollWidth differs from the
  cached value, and in that case the cache holds the four current values afterwards;
  otherwise the cache is unchanged.  Both classes.
\<close>

theorem tick_detects_dimension_change:
  assumes "alive s"
    and "find_root (el_parents (element s)) (el_chain_end (element s)) = ReachedBody"
    and "alive p"
    and "find_root (el_parents (element p)) (el_chain_end (element p)) = ReachedBody"
  shows
    "(\<exists>s'. sc_intervalHandler sn s = Inr ((), s') \<and>
        (ParentUpdated \<in> set (new_calls s s') \<longleftrightarrow> dims_changed (cache s) (element s)) \<and>
        cache s' = (if dims_changed (cache s) (element s)
                    then current_dims (element s) else cache s)) \<and>
     (\<exists>p'. poc_mutationHandler sn p = Inr ((), p') \<and>
        (ParentUpdated \<in> set (new_calls p p') \<longleftrightarrow> dims_changed (cache p) (element p)) \<and>
        cache p' = (if dims_changed (cache p) (element p)
                    then current_dims (element p) else cache p))"
  using sc_tick_attached [OF assms(1,2), of sn] poc_tick_attached [OF assms(3,4), of sn]
  by (rule conjI)

theorem tick_detects_dimension_change_witness:
  "alive resized_sc \<and>
   find_root (el_parents (element resized_sc)) (el_chain_end (element resized_sc)) = ReachedBody \<and>
   alive resized_poc \<and>
   find_root (el_parents (element resized_poc)) (el_chain_end (element resized_poc)) = ReachedBody \<and>
   dims_changed (cache resized_sc) (element resized_sc) \<and>
   dims_changed (cache resized_poc) (element resized_poc) \<and>
   (\<exists>s'. sc_intervalHandler sn0 resized_sc = Inr ((), s') \<and>
      (ParentUpdated \<in> set (new_calls resized_sc s') \<longleftrightarrow>
         dims_changed (cache resized_sc) (element resized_sc)) \<and>
      cache s' = (if dims_changed (cache resized_sc) (element resized_sc)
                  then current_dims (element resized_sc) else cache resized_sc)) \<and>
   (\<exists>p'. poc_mutationHandler sn0 resized_poc = Inr ((), p') \<and>
      (ParentUpdated \<in> set (new_calls resized_poc p') \<longleftrightarrow>
         dims_changed (cache resized_poc) (element resized_poc)) \<and>
      cache p' = (if dims_changed (cache resized_poc) (element resized_poc)
                  then current_dims (element resized_poc) else cache resized_poc))"
proof -
  have h1: "alive resized_sc" by code_simp
  have h2: "find_root (el_parents (element resized_sc)) (el_chain_end (element resized_sc)) =
            ReachedBody" by code_simp
  have h3: "alive resized_poc" by code_simp
  have h4: "find_root (el_parents (element resized_poc)) (el_chain_end (element resized_poc)) =
            ReachedBody" by code_simp
  have d1: "dims_changed (cache resized_sc) (element resized_sc)" by code_simp
  have d2: "dims_changed (cache resized_poc) (element resized_poc)" by code_simp
  note c = tick_detects_dimension_change [OF h1 h2 h3 h4, of sn0]
  show ?thesis
    by (intro conjI h1 h2 h3 h4 d1 d2 c [THEN conjunct1] c [THEN conjunct2])
qed

lemma remove_own_listeners_keeps:
  "el_scrollTop (fold (\<lambda>aKey. removeEventListener aKey (OwnListener aKey)) ks e) = el_scrollTop e \<and>
   el_scrollLeft (fold (\<lambda>aKey. removeEventListener aKey (OwnListener aKey)) ks e) = el_scrollLeft e"
  by (induction ks arbitrary: e) (simp_all add: removeEventListener_def)

lemma sc_destroy_frame:
  "cache (final_state (sc_destroy s)) = cache s \<and>
   this_scrollTop (final_state (sc_destroy s)) = this_scrollTop s \<and>
   this_scrollLeft (final_state (sc_destroy s)) = this_scrollLeft s \<and>
   el_scrollTop (element (final_state (sc_destroy s))) = el_scrollTop (element s) \<and>
   el_scrollLeft (element (final_state (sc_destroy s))) = el_scrollLeft (element s) \<and>
   (view (final_state (sc_destroy s)) = view s \<or>
    view (final_state (sc_destroy s)) = view s @ [ViewDestroyed])"
  by (simp add: sc_destroy_def Let_def remove_own_listeners_keeps split: ptr.splits)

lemma poc_destroy_frame:
  "cache (final_state (poc_destroy s)) = cache s \<and>
   this_scrollTop (final_state (poc_destroy s)) = this_scrollTop s \<and>
   this_scrollLeft (final_state (poc_destroy s)) = this_scrollLeft s \<and>
   el_scrollTop (element (final_state (poc_destroy s))) = el_scrollTop (element s) \<and>
   el_scrollLeft (element (final_state (poc_destroy s))) = el_scrollLeft (element s) \<and>
   (view (final_state (poc_destroy s)) = view s \<or>
    view (final_state (poc_destroy s)) = view s @ [ViewDestroyed])"
  by (simp add: poc_destroy_def Let_def remove_own_listeners_keeps
        split: ptr.splits mo_ref.splits)

text \<open>
  C10: on a tick of an instance that has not been destroyed, if the walk up the
  \<open>parentElement\<close> links ends in null or undefined without meeting \<open>document.body\<close>,
  the handler does what \<open>destroy()\<close> does after the two reset notifications and nothing
  else: the cached metrics are not refreshed, the view receives no \<open>parentUpdated\<close> and
  no notification beyond the two resets and the view's own \<open>destroy\<close>, and neither the
  stored offsets nor the element's offsets change.  Both classes.
\<close>

theorem detached_tick_destroys:
  assumes "alive s"
    and "find_root (el_parents (element s)) (el_chain_end (element s)) = ReachedNull \<or>
         find_root (el_parents (element s)) (el_chain_end (element s)) = ReachedUndefined"
    and "alive p"
    and "find_root (el_parents (element p)) (el_chain_end (element p)) = ReachedNull \<or>
         find_root (el_parents (element p)) (el_chain_end (element p)) = ReachedUndefined"
  shows
    "sc_intervalHandler sn s = sc_destroy (s\<lparr>view := view s @ reset_calls\<rparr>) \<and>
     returned (sc_intervalHandler sn s) = Some () \<and>
     this_container (final_state (sc_intervalHandler sn s)) = NullPtr \<and>
     new_calls s (final_state (sc_intervalHandler sn s)) = reset_calls @ [ViewDestroyed] \<and>
     cache (final_state (sc_intervalHandler sn s)) = cache s \<and>
     this_scrollTop (final_state (sc_intervalHandler sn s)) = this_scrollTop s \<and>
     this_scrollLeft (final_state (sc_intervalHandler sn s)) = this_scrollLeft s \<and>
     el_scrollTop (element (final_state (sc_intervalHandler sn s))) = el_scrollTop (element s) \<and>
     el_scrollLeft (element (final_state (sc_intervalHandler sn s))) = el_scrollLeft (element s) \<and>
     poc_mutationHandler sn p = poc_destroy (p\<lparr>view := view p @ reset_calls\<rparr>) \<and>
     new_calls p (final_state (poc_mutationHandler sn p)) \<in>
       {reset_calls, reset_calls @ [ViewDestroyed]} \<and>
     cache (final_state (poc_mutationHandler sn p)) = cache p \<and>
     this_scrollTop (final_state (poc_mutationHandler sn p)) = this_scrollTop p \<and>
     this_scrollLeft (final_state (poc_mutationHandler sn p)) = this_scrollLeft p \<and>
     el_scrollTop (element (final_state (poc_mutationHandler sn p))) = el_scrollTop (element p) \<and>
     el_scrollLeft (element (final_state (poc_mutationHandler sn p))) = el_scrollLeft (element p)"
proof -
  let ?s1 = "s\<lparr>view := view s @ reset_calls\<rparr>"
  let ?p1 = "p\<lparr>view := view p @ reset_calls\<rparr>"
  note a = sc_tick_detached [OF assms(1,2), of sn]
  note b = poc_tick_detached [OF assms(3,4), of sn]
  have s1: "alive ?s1" using assms(1) by (simp add: alive_def)
  have sc: "returned (sc_destroy ?s1) = Some () \<and>
            this_container (final_state (sc_destroy ?s1)) = NullPtr \<and>
            new_calls s (final_state (sc_destroy ?s1)) = reset_calls @ [ViewDestroyed]"
    using s1 by (simp add: sc_destroy_def alive_def Let_def new_calls_def)
  have pv: "new_calls p (final_state (poc_destroy ?p1)) \<in>
              {reset_calls, reset_calls @ [ViewDestroyed]}"
    using poc_destroy_frame [of ?p1] by (auto simp: new_calls_def)
  show ?thesis
    unfolding a b
    using sc pv sc_destroy_frame [of ?s1] poc_destroy_frame [of ?p1]
    by simp
qed

theorem detached_tick_destroys_witness:
  "alive detached_sc \<and>
   (find_root (el_parents (element detached_sc)) (el_chain_end (element detached_sc)) = ReachedNull \<or>
    find_root (el_parents (element detached_sc)) (el_chain_end (element detached_sc)) =
      ReachedUndefined) \<and>
   alive detached_poc \<and>
   (find_root (el_parents (element detached_poc)) (el_chain_end (element detached_poc)) = ReachedNull \<or>
    find_root (el_parents (element detached_poc)) (el_chain_end (element detached_poc)) =
      ReachedUndefined) \<and>
   sc_intervalHandler sn0 detached_sc =
     sc_destroy (detached_sc\<lparr>view := view detached_sc @ reset_calls\<rparr>) \<and>
   new_calls detached_sc (final_state (sc_intervalHandler sn0 detached_sc)) =
     reset_calls @ [ViewDestroyed] \<and>
   cache (final_state (sc_intervalHandler sn0 detached_sc)) = cache detached_sc \<and>
   poc_mutationHandler sn0 detached_poc =
     poc_destroy (detached_poc\<lparr>view := view detached_poc @ reset_calls\<rparr>) \<and>
   cache (final_state (poc_mutationHandler sn0 detached_poc)) = cache detached_poc"
proof -
  have h1: "alive detached_sc" by code_simp
  have h2: "find_root (el_parents (element detached_sc)) (el_chain_end (element detached_sc)) =
              ReachedNull \<or>
            find_root (el_parents (element detached_sc)) (el_chain_end (element detached_sc)) =
              ReachedUndefined" by code_simp
  have h3: "alive detached_poc" by code_simp
  have h4: "find_root (el_parents (element detached_poc)) (el_chain_end (element detached_poc)) =
              ReachedNull \<or>
            find_root (el_parents (element detached_poc)) (el_chain_end (element detached_poc)) =
              ReachedUndefined" by code_simp
  note c = detached_tick_destroys [OF h1 h2 h3 h4, of sn0]
  from c have c1: "sc_intervalHandler sn0 detached_sc =
     sc_destroy (detached_sc\<lparr>view := view detached_sc @ reset_calls\<rparr>)" by (rule conjunct1)
  from c have c2: "new_calls detached_sc (final_state (sc_intervalHandler sn0 detached_sc)) =
     reset_calls @ [ViewDestroyed]" by blast
  from c have c3: "cache (final_state (sc_intervalHandler sn0 detached_sc)) = cache detached_sc"
    by blast
  from c have c4: "poc_mutationHandler sn0 detached_poc =
     poc_destroy (detached_poc\<lparr>view := view detached_poc @ reset_calls\<rparr>)" by blast
  from c have c5: "cache (final_state (poc_mutationHandler sn0 detached_poc)) = cache detached_poc"
    by blast
  show ?thesis by (intro conjI h1 h2 h3 h4 c1 c2 c3 c4 c5)
qed

subsection \<open>C3: stored offsets and the element's offsets\<close>

lemma num_add_finite:
  "\<forall>a b. fadd a b \<noteq> NaN \<Longrightarrow> a \<noteq> NaN \<Longrightarrow> is_finite d \<Longrightarrow> num_add fadd a d \<noteq> NaN"
  by (cases a; cases d) simp_all

lemma synced_not_NaN:
  "synced s \<Longrightarrow> el_scrollTop (element s) \<noteq> NaN \<and> el_scrollLeft (element s) \<noteq> NaN"
  by (cases "this_scrollTop s"; cases "this_scrollLeft s") (auto simp: synced_def)

lemma in_range_clamp:
  assumes "in_range (JNum n) hi"
  shows "(if num_lt n (Fin 0) then Fin 0
          else if num_lt (num_of_int hi) n then num_of_int hi else n) = n"
    and "n \<noteq> NaN"
  using assms by (cases n; simp add: in_range_def num_of_int_def)+

lemma sc_scrollTop_synced:
  assumes "alive s" "synced s" "argument args 0 \<noteq> JNum NaN"
  shows "\<exists>r s'. sc_scrollTop sn s args = Inr (r, s') \<and> alive s' \<and> synced s'"
proof (cases "argument args 0")
  case (JNum n)
  with assms(3) have n: "n \<noteq> NaN" by simp
  show ?thesis using assms(1,2) JNum n
    unfolding sc_scrollTop_def Let_def alive_def synced_def
    by (auto simp: strict_neq_def num_of_int_def split: ptr.splits)
qed (use assms in \<open>auto simp: sc_scrollTop_def Let_def alive_def\<close>)

lemma sc_scrollLeft_synced:
  assumes "alive s" "synced s"
    and "args = [] \<or> (typeof (argument args 0) = TNumber \<and> argument args 0 \<noteq> JNum NaN)"
  shows "\<exists>r s'. sc_scrollLeft sn s args = Inr (r, s') \<and> alive s' \<and> synced s'"
proof (cases "args = []")
  case True
  with assms(1,2) show ?thesis by (simp add: sc_scrollLeft_def Let_def alive_def)
next
  case False
  with assms(3) obtain n where n: "argument args 0 = JNum n" "n \<noteq> NaN"
    by (cases "argument args 0") auto
  show ?thesis using assms(1,2) n False
    unfolding sc_scrollLeft_def Let_def alive_def synced_def
    by (auto simp: strict_neq_def num_of_int_def split: ptr.splits)
qed

lemma sc_wheel_synced:
  assumes "alive s" "synced s" "is_finite (deltaX e)" "is_finite (deltaY e)"
    and "\<forall>a b. fadd a b \<noteq> NaN"
  shows "\<exists>r s'. sc_wheel sn fadd s e = Inr (r, s') \<and> alive s' \<and> synced s'"
proof (cases "defaultPrevented e")
  case True
  with assms(1,2) show ?thesis by (simp add: sc_wheel_def)
next
  case False
  have "argument [JNum (num_add fadd (el_scrollTop (element s)) (deltaY e))] 0 \<noteq> JNum NaN"
    using synced_not_NaN [OF assms(2)] assms(4,5) by (simp add: argument_def num_add_finite)
  from sc_scrollTop_synced [OF assms(1,2) this, of sn]
  obtain r1 s1 where 1:
      "sc_scrollTop sn s [JNum (num_add fadd (el_scrollTop (element s)) (deltaY e))] = Inr (r1, s1)"
    and a1: "alive s1" and y1: "synced s1" by blast
  have "[JNum (num_add fadd (el_scrollLeft (element s1)) (deltaX e))] = [] \<or>
        (typeof (argument [JNum (num_add fadd (el_scrollLeft (element s1)) (deltaX e))] 0) = TNumber \<and>
         argument [JNum (num_add fadd (el_scrollLeft (element s1)) (deltaX e))] 0 \<noteq> JNum NaN)"
    using synced_not_NaN [OF y1] assms(3,5) by (simp add: argument_def num_add_finite)
  from sc_scrollLeft_synced [OF a1 y1 this, of sn]
  obtain r2 s2 where 2:
      "sc_scrollLeft sn s1 [JNum (num_add fadd (el_scrollLeft (element s1)) (deltaX e))] = Inr (r2, s2)"
    and a2: "alive s2" and y2: "synced s2" by blast
  show ?thesis using False assms(1) a1 a2 y2
    by (simp add: sc_wheel_def Let_def 1 2 alive_def)
qed

lemma sc_tick_synced:
  assumes "alive s" "synced s" "attached s"
  shows "\<exists>s'. sc_intervalHandler sn s = Inr ((), s') \<and> alive s' \<and> synced s'"
  using assms
  by (auto simp: sc_intervalHandler_def Let_def alive_def synced_def strict_neq_def attached_def)

lemma sc_tick_resyncs:
  assumes "alive s" and "attached s" and "scrolling_enabled s" and "offsets_in_range s"
  shows "\<exists>s'. sc_intervalHandler sn s = Inr ((), s') \<and> alive s' \<and> synced s'"
proof -
  define s1 where "s1 = s\<lparr>view := view s @
      [ScrollTopUpdated (JNum (Fin 0)), ScrollLeftUpdated (JNum (Fin 0))]\<rparr>"
  define s2 where "s2 = (if dims_changed (cache s1) (element s1)
                         then s1\<lparr>cache := current_dims (element s1), view := view s1 @ [ParentUpdated]\<rparr>
                         else s1)"
  have a2: "alive s2" using assms(1) by (simp add: s2_def s1_def alive_def)
  have e2: "element s2 = element s" "this_options s2 = this_options s"
    "this_scrollTop s2 = this_scrollTop s" "this_scrollLeft s2 = this_scrollLeft s"
    by (simp_all add: s2_def s1_def)
  from assms(4) have rt: "in_range (JNum (el_scrollTop (element s)))
        (el_scrollHeight (element s) - el_clientHeight (element s))"
    and rl: "in_range (JNum (el_scrollLeft (element s)))
        (el_scrollWidth (element s) - el_clientWidth (element s))"
    by (simp_all add: offsets_in_range_def)
  from assms(3) have en: "\<not> truthy (disableYScrolling (this_options s2))"
     "\<not> truthy (disableXScrolling (this_options s2))"
    by (simp_all add: scrolling_enabled_def e2)
  define t3 where "t3 = (if strict_neq (this_scrollTop s2) (JNum (el_scrollTop (element s2)))
                         then (case sc_scrollTop sn s2 [JNum (el_scrollTop (element s2))] of
                                 Inl x \<Rightarrow> Inl x | Inr (r, s') \<Rightarrow> Inr ((), s'))
                         else if js_lt sn (this_scrollTop s) (num_of_int (scrollHeight (cache s2)))
                         then Inr ((), s2\<lparr>view := view s2 @ [ScrollTopUpdated (this_scrollTop s)]\<rparr>)
                         else Inr ((), s2))"
  have "\<exists>s3. t3 = Inr ((), s3) \<and> alive s3 \<and>
             strict_eq (this_scrollTop s3) (JNum (el_scrollTop (element s3))) \<and>
             el_scrollLeft (element s3) = el_scrollLeft (element s) \<and>
             el_scrollWidth (element s3) = el_scrollWidth (element s) \<and>
             el_clientWidth (element s3) = el_clientWidth (element s) \<and>
             this_options s3 = this_options s \<and> cache s3 = cache s2 \<and>
             this_scrollLeft s3 = this_scrollLeft s"
    using a2 in_range_clamp [OF rt]
    by (auto simp: t3_def sc_scrollTop_number [OF a2 en(1)] Let_def e2 alive_def strict_neq_def)
  then obtain s3 where t3: "t3 = Inr ((), s3)" and a3: "alive s3"
    and y3: "strict_eq (this_scrollTop s3) (JNum (el_scrollTop (element s3)))"
    and l3: "el_scrollLeft (element s3) = el_scrollLeft (element s)"
            "el_scrollWidth (element s3) = el_scrollWidth (element s)"
            "el_clientWidth (element s3) = el_clientWidth (element s)"
    and o3: "this_options s3 = this_options s" and c3: "cache s3 = cache s2"
    and sl3: "this_scrollLeft s3 = this_scrollLeft s"
    by blast
  from en(2) have en3: "\<not> truthy (disableXScrolling (this_options s3))" by (simp add: o3 e2)
  define t4 where "t4 = (if strict_neq (this_scrollLeft s3) (JNum (el_scrollLeft (element s3)))
                        then (case sc_scrollLeft sn s3 [JNum (el_scrollLeft (element s3))] of
                                Inl x \<Rightarrow> Inl x | Inr (r, s') \<Rightarrow> Inr ((), s'))
                        else if js_lt sn (this_scrollLeft s) (num_of_int (scrollWidth (cache s3)))
                        then Inr ((), s3\<lparr>view := view s3 @ [ScrollLeftUpdated (this_scrollLeft s)]\<rparr>)
                        else Inr ((), s3))"
  have "\<exists>s4. t4 = Inr ((), s4) \<and> alive s4 \<and> synced s4"
    using a3 y3 in_range_clamp [OF rl]
    by (auto simp: t4_def sc_scrollLeft_number [OF a3 en3] Let_def l3 alive_def strict_neq_def
          synced_def)
  then obtain s4 where t4: "t4 = Inr ((), s4)" and r4: "alive s4" "synced s4" by blast
  have run: "sc_intervalHandler sn s = t4"
    using assms(1,2) t3
    by (simp add: sc_intervalHandler_def alive_def attached_def Let_def t4_def t3_def [symmetric]
          s2_def [symmetric] s1_def [symmetric])
  with t4 r4 show ?thesis by simp
qed

lemma sc_apply_synced:
  assumes "\<forall>a b. fadd a b \<noteq> NaN" and "alive s" and "synced s" and "op_ok s op"
  shows "\<exists>s'. sc_apply sn fadd s op = Inr ((), s') \<and> alive s' \<and> synced s'"
proof (cases op)
  case (ScrollTop args)
  with assms(4) sc_scrollTop_synced [OF assms(2,3), of args sn] show ?thesis by auto
next
  case (ScrollLeft args)
  with assms(4) sc_scrollLeft_synced [OF assms(2,3), of args sn] show ?thesis by auto
next
  case (Wheel ev)
  with assms(4) sc_wheel_synced [OF assms(2,3) _ _ assms(1), of ev sn] show ?thesis by auto
next
  case Tick
  with assms(4) sc_tick_synced [OF assms(2,3), of sn] show ?thesis by auto
qed

lemma poc_scrollTop_synced:
  assumes "alive s" "synced s" "argument args 0 \<noteq> JNum NaN"
  shows "\<exists>r s'. poc_scrollTop sn s args = Inr (r, s') \<and> alive s' \<and> synced s'"
proof (cases "argument args 0")
  case (JNum n)
  with assms(3) have n: "n \<noteq> NaN" by simp
  show ?thesis using assms(1,2) JNum n
    unfolding poc_scrollTop_def Let_def alive_def synced_def
    by (auto simp: strict_neq_def num_of_int_def split: ptr.splits)
qed (use assms in \<open>auto simp: poc_scrollTop_def Let_def alive_def\<close>)

lemma poc_scrollLeft_synced:
  assumes "alive s" "synced s"
    and "args = [] \<or> (typeof (argument args 0) = TNumber \<and> argument args 0 \<noteq> JNum NaN)"
  shows "\<exists>r s'. poc_scrollLeft sn s args = Inr (r, s') \<and> alive s' \<and> synced s'"
proof (cases "args = []")
  case True
  with assms(1,2) show ?thesis by (simp add: poc_scrollLeft_def Let_def alive_def)
next
  case False
  with assms(3) obtain n where n: "argument args 0 = JNum n" "n \<noteq> NaN"
    by (cases "argument args 0") auto
  show ?thesis using assms(1,2) n False
    unfolding poc_scrollLeft_def Let_def alive_def synced_def
    by (auto simp: strict_neq_def num_of_int_def split: ptr.splits)
qed

lemma poc_wheel_synced:
  assumes "alive s" "synced s" "is_finite (deltaX e)" "is_finite (deltaY e)"
    and "\<forall>a b. fadd a b \<noteq> NaN"
  shows "\<exists>r s'. poc_wheel sn fadd s e = Inr (r, s') \<and> alive s' \<and> synced s'"
proof (cases "defaultPrevented e")
  case True
  with assms(1,2) show ?thesis by (simp add: poc_wheel_def)
next
  case False
  have "argument [JNum (num_add fadd (el_scrollTop (element s)) (deltaY e))] 0 \<noteq> JNum NaN"
    using synced_not_NaN [OF assms(2)] assms(4,5) by (simp add: argument_def num_add_finite)
  from poc_scrollTop_synced [OF assms(1,2) this, of sn]
  obtain r1 s1 where 1:
      "poc_scrollTop sn s [JNum (num_add fadd (el_scrollTop (element s)) (deltaY e))] = Inr (r1, s1)"
    and a1: "alive s1" and y1: "synced s1" by blast
  have "[JNum (num_add fadd (el_scrollLeft (element s1)) (deltaX e))] = [] \<or>
        (typeof (argument [JNum (num_add fadd (el_scrollLeft (element s1)) (deltaX e))] 0) = TNumber \<and>
         argument [JNum (num_add fadd (el_scrollLeft (element s1)) (deltaX e))] 0 \<noteq> JNum NaN)"
    using synced_not_NaN [OF y1] assms(3,5) by (simp add: argument_def num_add_finite)
  from poc_scrollLeft_synced [OF a1 y1 this, of sn]
  obtain r2 s2 where 2:
      "poc_scrollLeft sn s1 [JNum (num_add fadd (el_scrollLeft (element s1)) (deltaX e))] = Inr (r2, s2)"
    and a2: "alive s2" and y2: "synced s2" by blast
  show ?thesis using False assms(1) a1 a2 y2
    by (simp add: poc_wheel_def Let_def 1 2 alive_def)
qed

lemma poc_tick_synced:
  assumes "alive s" "synced s" "attached s"
  shows "\<exists>s'. poc_mutationHandler sn s = Inr ((), s') \<and> alive s' \<and> synced s'"
  using assms
  by (auto simp: poc_mutationHandler_def Let_def alive_def synced_def strict_neq_def attached_def)

lemma poc_tick_resyncs:
  assumes "alive s" and "attached s" and "scrolling_enabled s" and "offsets_in_range s"
  shows "\<exists>s'. poc_mutationHandler sn s = Inr ((), s') \<and> alive s' \<and> synced s'"
proof -
  define s1 where "s1 = s\<lparr>view := view s @
      [ScrollTopUpdated (JNum (Fin 0)), ScrollLeftUpdated (JNum (Fin 0))]\<rparr>"
  define s2 where "s2 = (if dims_changed (cache s1) (element s1)
                         then s1\<lparr>cache := current_dims (element s1), view := view s1 @ [ParentUpdated]\<rparr>
                         else s1)"
  have a2: "alive s2" using assms(1) by (simp add: s2_def s1_def alive_def)
  have e2: "element s2 = element s" "this_options s2 = this_options s"
    "this_scrollTop s2 = this_scrollTop s" "this_scrollLeft s2 = this_scrollLeft s"
    by (simp_all add: s2_def s1_def)
  from assms(4) have rt: "in_range (JNum (el_scrollTop (element s)))
        (el_scrollHeight (element s) - el_clientHeight (element s))"
    and rl: "in_range (JNum (el_scrollLeft (element s)))
        (el_scrollWidth (element s) - el_clientWidth (element s))"
    by (simp_all add: offsets_in_range_def)
  from assms(3) have en: "\<not> truthy (disableYScrolling (this_options s2))"
     "\<not> truthy (disableXScrolling (this_options s2))"
    by (simp_all add: scrolling_enabled_def e2)
  define t3 where "t3 = (if strict_neq (this_scrollTop s2) (JNum (el_scrollTop (element s2)))
                         then (case poc_scrollTop sn s2 [JNum (el_scrollTop (element s2))] of
                                 Inl x \<Rightarrow> Inl x | Inr (r, s') \<Rightarrow> Inr ((), s'))
                         else if js_lt sn (this_scrollTop s) (num_of_int (scrollHeight (cache s2)))
                         then Inr ((), s2\<lparr>view := view s2 @ [ScrollTopUpdated (this_scrollTop s)]\<rparr>)
                         else Inr ((), s2))"
  have "\<exists>s3. t3 = Inr ((), s3) \<and> alive s3 \<and>
             strict_eq (this_scrollTop s3) (JNum (el_scrollTop (element s3))) \<and>
             el_scrollLeft (element s3) = el_scrollLeft (element s) \<and>
             el_scrollWidth (element s3) = el_scrollWidth (element s) \<and>
             el_clientWidth (element s3) = el_clientWidth (element s) \<and>
             this_options s3 = this_options s \<and> cache s3 = cache s2 \<and>
             this_scrollLeft s3 = this_scrollLeft s"
    using a2 in_range_clamp [OF rt]
    by (auto simp: t3_def poc_scrollTop_number [OF a2 en(1)] Let_def e2 alive_def strict_neq_def)
  then obtain s3 where t3: "t3 = Inr ((), s3)" and a3: "alive s3"
    and y3: "strict_eq (this_scrollTop s3) (JNum (el_scrollTop (element s3)))"
    and l3: "el_scrollLeft (element s3) = el_scrollLeft (element s)"
            "el_scrollWidth (element s3) = el_scrollWidth (element s)"
            "el_clientWidth (element s3) = el_clientWidth (element s)"
    and o3: "this_options s3 = this_options s" and c3: "cache s3 = cache s2"
    and sl3: "this_scrollLeft s3 = this_scrollLeft s"
    by blast
  from en(2) have en3: "\<not> truthy (disableXScrolling (this_options s3))" by (simp add: o3 e2)
  define t4 where "t4 = (if strict_neq (this_scrollLeft s3) (JNum (el_scrollLeft (element s3)))
                        then (case poc_scrollLeft sn s3 [JNum (el_scrollLeft (element s3))] of
                                Inl x \<Rightarrow> Inl x | Inr (r, s') \<Rightarrow> Inr ((), s'))
                        else if js_lt sn (this_scrollLeft s) (num_of_int (scrollWidth (cache s3)))
                        then Inr ((), s3\<lparr>view := view s3 @ [ScrollLeftUpdated (this_scrollLeft s)]\<rparr>)
                        else Inr ((), s3))"
  have "\<exists>s4. t4 = Inr ((), s4) \<and> alive s4 \<and> synced s4"
    using a3 y3 in_range_clamp [OF rl]
    by (auto simp: t4_def poc_scrollLeft_number [OF a3 en3] Let_def l3 alive_def strict_neq_def
          synced_def)
  then obtain s4 where t4: "t4 = Inr ((), s4)" and r4: "alive s4" "synced s4" by blast
  have run: "poc_mutationHandler sn s = t4"
    using assms(1,2) t3
    by (simp add: poc_mutationHandler_def alive_def attached_def Let_def t4_def t3_def [symmetric]
          s2_def [symmetric] s1_def [symmetric])
  with t4 r4 show ?thesis by simp
qed

lemma poc_apply_synced:
  assumes "\<forall>a b. fadd a b \<noteq> NaN" and "alive s" and "synced s" and "op_ok s op"
  shows "\<exists>s'. poc_apply sn fadd s op = Inr ((), s') \<and> alive s' \<and> synced s'"
proof (cases op)
  case (ScrollTop args)
  with assms(4) poc_scrollTop_synced [OF assms(2,3), of args sn] show ?thesis by auto
next
  case (ScrollLeft args)
  with assms(4) poc_scrollLeft_synced [OF assms(2,3), of args sn] show ?thesis by auto
next
  case (Wheel ev)
  with assms(4) poc_wheel_synced [OF assms(2,3) _ _ assms(1), of ev sn] show ?thesis by auto
next
  case Tick
  with assms(4) poc_tick_synced [OF assms(2,3), of sn] show ?thesis by auto
qed

lemma add_own_listeners_keeps:
  "el_scrollTop (fold (\<lambda>aKey. addEventListener aKey (OwnListener aKey)) ks e) = el_scrollTop e \<and>
   el_scrollLeft (fold (\<lambda>aKey. addEventListener aKey (OwnListener aKey)) ks e) = el_scrollLeft e"
  by (induction ks arbitrary: e) (simp_all add: addEventListener_def)

lemma sc_new_synced:
  assumes "el_scrollTop e = Fin 0" "el_scrollLeft e = Fin 0"
  shows "alive (sc_new e w opts) \<and> synced (sc_new e w opts)"
  using assms
  by (simp add: sc_new_def Let_def alive_def synced_def add_own_listeners_keeps
        setInterval_def set_timer_def)

lemma poc_new_synced:
  assumes "el_scrollTop e = Fin 0" "el_scrollLeft e = Fin 0"
  shows "\<exists>p'. poc_new True e w opts = Inr ((), p') \<and> alive p' \<and> synced p'"
  using assms
  by (simp add: poc_new_def Let_def alive_def synced_def add_own_listeners_keeps
        setInterval_def set_timer_def)

text \<open>
  C3 as stated: after the constructor and after every public operation the stored
  offsets equal the element's.  The constructor stores 0 and 0 without reading the
  element: for the example element scrolled down by 50, the new instance stores 0 while
  the element's \<open>scrollTop\<close> is 50; and a call \<open>scrollTop(0)\<close> on that instance, whose
  clamped value equals the stored one, writes nothing and leaves the two apart.
\<close>

theorem constructor_ignores_scroll_position:
  "el_scrollTop (element (sc_new scrolled_element example_window default_options)) = Fin 50 \<and>
   this_scrollTop (sc_new scrolled_element example_window default_options) = JNum (Fin 0) \<and>
   \<not> synced (sc_new scrolled_element example_window default_options) \<and>
   returned (sc_scrollTop sn0 (sc_new scrolled_element example_window default_options)
               [JNum (Fin 0)]) = Some (JNum (Fin 0)) \<and>
   \<not> synced (final_state
       (sc_scrollTop sn0 (sc_new scrolled_element example_window default_options)
          [JNum (Fin 0)]))"
  by code_simp

text \<open>
  C3, amended, for both classes.  When the element's offsets are 0 at construction, the
  stored offsets equal the element's after the constructor.  On an instance that has not
  been destroyed and whose stored offsets equal the element's, each of \<open>scrollTop\<close>
  (called with anything but NaN), \<open>scrollLeft\<close> (called without argument or with a
  number other than NaN), a wheel event with finite deltas, and a tick that finds the
  container inside the document returns normally and leaves them equal.  And whatever
  the stored offsets were before, a tick on an instance that has not been destroyed,
  that finds the container inside the document, with scrolling not disabled and the
  element's offsets within their scroll ranges, returns normally with the stored offsets
  equal to the element's.
\<close>

theorem sync_established_and_kept:
  "(el_scrollTop e = Fin 0 \<and> el_scrollLeft e = Fin 0 \<longrightarrow>
      alive (sc_new e w opts) \<and> synced (sc_new e w opts) \<and>
      (\<exists>p'. poc_new True e w opts = Inr ((), p') \<and> alive p' \<and> synced p')) \<and>
   ((\<forall>a b. fadd a b \<noteq> NaN) \<and> alive s \<and> synced s \<and> op_ok s op \<longrightarrow>
      (\<exists>s'. sc_apply sn fadd s op = Inr ((), s') \<and> alive s' \<and> synced s')) \<and>
   ((\<forall>a b. fadd a b \<noteq> NaN) \<and> alive p \<and> synced p \<and> op_ok p op \<longrightarrow>
      (\<exists>p'. poc_apply sn fadd p op = Inr ((), p') \<and> alive p' \<and> synced p')) \<and>
   (alive t \<and> attached t \<and> scrolling_enabled t \<and> offsets_in_range t \<longrightarrow>
      (\<exists>t'. sc_intervalHandler sn t = Inr ((), t') \<and> alive t' \<and> synced t')) \<and>
   (alive q \<and> attached q \<and> scrolling_enabled q \<and> offsets_in_range q \<longrightarrow>
      (\<exists>q'. poc_mutationHandler sn q = Inr ((), q') \<and> alive q' \<and> synced q'))"
  using sc_new_synced [of e w opts] poc_new_synced [of e w opts]
    sc_apply_synced [of fadd s op sn] poc_apply_synced [of fadd p op sn]
    sc_tick_resyncs [of t sn] poc_tick_resyncs [of q sn]
  by blast

theorem sync_established_and_kept_witness:
  "el_scrollTop example_element = Fin 0 \<and> el_scrollLeft example_element = Fin 0 \<and>
   (\<forall>a b. fadd0 a b \<noteq> NaN) \<and>
   alive example_sc \<and> synced example_sc \<and> op_ok example_sc (Wheel example_wheel) \<and>
   alive example_poc \<and> synced example_poc \<and> op_ok example_poc (Wheel example_wheel) \<and>
   alive drifted_sc \<and> \<not> synced drifted_sc \<and> attached drifted_sc \<and>
   scrolling_enabled drifted_sc \<and> offsets_in_range drifted_sc \<and>
   alive drifted_poc \<and> \<not> synced drifted_poc \<and> attached drifted_poc \<and>
   scrolling_enabled drifted_poc \<and> offsets_in_range drifted_poc \<and>
   synced (sc_new example_element example_window default_options) \<and>
   (\<exists>p'. poc_new True example_element example_window default_options = Inr ((), p') \<and>
         alive p' \<and> synced p') \<and>
   (\<exists>s'. sc_apply sn0 fadd0 example_sc (Wheel example_wheel) = Inr ((), s') \<and>
         alive s' \<and> synced s') \<and>
   (\<exists>p'. poc_apply sn0 fadd0 example_poc (Wheel example_wheel) = Inr ((), p') \<and>
         alive p' \<and> synced p') \<and>
   (\<exists>t'. sc_intervalHandler sn0 drifted_sc = Inr ((), t') \<and> alive t' \<and> synced t') \<and>
   (\<exists>q'. poc_mutationHandler sn0 drifted_poc = Inr ((), q') \<and> alive q' \<and> synced q')"
proof -
  have z: "el_scrollTop example_element = Fin 0 \<and> el_scrollLeft example_element = Fin 0"
    by code_simp
  have f: "\<forall>a b. fadd0 a b \<noteq> NaN" by (simp add: fadd0_def)
  have s: "alive example_sc \<and> synced example_sc \<and> op_ok example_sc (Wheel example_wheel)"
    by code_simp
  have p: "alive example_poc \<and> synced example_poc \<and> op_ok example_poc (Wheel example_wheel)"
    by code_simp
  have t: "alive drifted_sc \<and> attached drifted_sc \<and> scrolling_enabled drifted_sc \<and>
           offsets_in_range drifted_sc" by code_simp
  have q: "alive drifted_poc \<and> attached drifted_poc \<and> scrolling_enabled drifted_poc \<and>
           offsets_in_range drifted_poc" by code_simp
  have nt: "\<not> synced drifted_sc" by code_simp
  have nq: "\<not> synced drifted_poc" by code_simp
  note c = sync_established_and_kept [of example_element example_window default_options
      fadd0 example_sc "Wheel example_wheel" sn0 example_poc drifted_sc drifted_poc]
  from c z have c1: "synced (sc_new example_element example_window default_options) \<and>
      (\<exists>p'. poc_new True example_element example_window default_options = Inr ((), p') \<and>
            alive p' \<and> synced p')" by blast
  from c f s have c2: "\<exists>s'. sc_apply sn0 fadd0 example_sc (Wheel example_wheel) = Inr ((), s') \<and>
      alive s' \<and> synced s'" by blast
  from c f p have c3: "\<exists>p'. poc_apply sn0 fadd0 example_poc (Wheel example_wheel) = Inr ((), p') \<and>
      alive p' \<and> synced p'" by blast
  from c t have c4: "\<exists>t'. sc_intervalHandler sn0 drifted_sc = Inr ((), t') \<and> alive t' \<and> synced t'"
    by blast
  from c q have c5: "\<exists>q'. poc_mutationHandler sn0 drifted_poc = Inr ((), q') \<and> alive q' \<and> synced q'"
    by blast
  from z f s p t q nt nq c1 c2 c3 c4 c5 show ?thesis by blast
qed

subsection \<open>C7: debounce\<close>
lemma pending_for_clear:
  "pending_for cb (clear_timer (Some x) w) = filter (\<lambda>t. t_handle t \<noteq> x) (pending_for cb w)"
  by (simp add: pending_for_def clear_timer_def conj_commute)

lemma pending_for_clear_None: "pending_for cb (clear_timer None w) = pending_for cb w"
  by (simp add: clear_timer_def)

lemma ran_times_le:
  "\<forall>e \<in> set es. entry_time e \<le> i \<Longrightarrow> \<forall>r \<in> set (ran_times es). r \<le> i"
  by (induction es rule: ran_times.induct) auto

lemma spaced_cons:
  "spaced wt rs \<Longrightarrow> \<forall>r \<in> set rs. r + wt \<le> n \<Longrightarrow> spaced wt (n # rs)"
  by (cases rs) auto

lemma inv_init: "pending_for cb w = [] \<Longrightarrow> deb_inv cb wt (host_init cb wt w)"
  by (simp add: deb_inv_def host_init_def debounce_def)

lemma inv_invoke: assumes "deb_inv cb wt h" shows "deb_inv cb wt (host_step Invoke h)"
proof -
  have p: "pending_for cb (clearTimeout (pointer (dh_wrapper h)) (dh_window h)) = []"
    using assms unfolding deb_inv_def clearTimeout_def
    by (cases "pointer (dh_wrapper h)") (auto simp: pending_for_clear pending_for_clear_None)
  have n: "win_now (clearTimeout (pointer (dh_wrapper h)) (dh_window h)) = win_now (dh_window h)"
    by (simp add: clearTimeout_def clear_timer_def split: option.splits)
  show ?thesis
    using assms p n unfolding deb_inv_def
    by (auto simp: debounced_call_def setTimeout_def set_timer_def Let_def pending_for_def)
qed

lemma inv_elapse: assumes "deb_inv cb wt h" shows "deb_inv cb wt (host_step (Elapse k) h)"
  using assms unfolding deb_inv_def by (auto simp: pending_for_def)


lemma inv_fire: assumes "deb_inv cb wt h" shows "deb_inv cb wt (host_step (Fire x) h)"
proof (cases "filter (\<lambda>t. t_handle t = x \<and> \<not> t_repeat t) (win_timers (dh_window h))")
  case Nil
  with assms show ?thesis by simp
next
  case (Cons t' ts)
  then have "t' \<in> set (filter (\<lambda>t. t_handle t = x \<and> \<not> t_repeat t) (win_timers (dh_window h)))"
    by simp
  then have mem: "t' \<in> set (win_timers (dh_window h))" and hx: "t_handle t' = x"
    by simp_all
  show ?thesis
  proof (cases "due (dh_window h) t'")
    case False
    with Cons assms show ?thesis by simp
  next
    case True
    let ?w' = "clear_timer (Some x) (dh_window h)"
    have now: "win_now ?w' = win_now (dh_window h)" by (simp add: clear_timer_def)
    have pend: "pending_for cb ?w' = filter (\<lambda>t. t_handle t \<noteq> x) (pending_for cb (dh_window h))"
      by (rule pending_for_clear)
    show ?thesis
    proof (cases "t_callback t' = cb")
      case False
      then have step: "host_step (Fire x) h = h\<lparr>dh_window := ?w'\<rparr>"
        using Cons True assms by (simp add: deb_inv_def)
      from assms have old: "pending_for cb (dh_window h) = [] \<or>
         (\<exists>t es. pending_for cb (dh_window h) = [t] \<and>
                pointer (dh_wrapper h) = Some (t_handle t) \<and> t_delay t = wt \<and>
                dh_trace h = Invoked (t_set t) # es)"
        unfolding deb_inv_def by blast
      have "pending_for cb ?w' = [] \<or>
         (\<exists>t es. pending_for cb ?w' = [t] \<and>
                pointer (dh_wrapper h) = Some (t_handle t) \<and> t_delay t = wt \<and>
                dh_trace h = Invoked (t_set t) # es)"
      proof (cases "pending_for cb (dh_window h) = []")
        case True
        then show ?thesis unfolding pend by simp
      next
        case False
        with old obtain t es where o: "pending_for cb (dh_window h) = [t]"
          "pointer (dh_wrapper h) = Some (t_handle t)" "t_delay t = wt"
          "dh_trace h = Invoked (t_set t) # es" by blast
        show ?thesis
        proof (cases "t_handle t = x")
          case True
          then show ?thesis unfolding pend o(1) by simp
        next
          case False
          then have "pending_for cb ?w' = [t]" unfolding pend o(1) by simp
          with o show ?thesis by blast
        qed
      qed
      with assms show ?thesis unfolding step deb_inv_def by (simp add: now)
    next
      case cb: True
      then have step: "host_step (Fire x) h =
          h\<lparr>dh_window := ?w', dh_trace := Ran (win_now (dh_window h)) # dh_trace h\<rparr>"
        using Cons True assms by (simp add: deb_inv_def)
      from mem cb have "t' \<in> set (pending_for cb (dh_window h))"
        by (simp add: pending_for_def)
      with assms obtain es where p1: "pending_for cb (dh_window h) = [t']"
        and d: "t_delay t' = wt" and tr: "dh_trace h = Invoked (t_set t') # es"
        unfolding deb_inv_def by auto
      from True d have due': "t_set t' + wt \<le> win_now (dh_window h)" by (simp add: due_def)
      have p': "pending_for cb ?w' = []" unfolding pend p1 using hx by simp
      from assms tr have srt: "\<forall>e \<in> set es. entry_time e \<le> t_set t'"
        unfolding deb_inv_def by auto
      from ran_times_le [OF srt] due'
      have "\<forall>r \<in> set (ran_times es). r + wt \<le> win_now (dh_window h)" by auto
      moreover from assms tr have "spaced wt (ran_times es)" unfolding deb_inv_def by simp
      ultimately have sp: "spaced wt (win_now (dh_window h) # ran_times es)"
        by (intro spaced_cons)
      from assms tr have dt: "debounced_trace wt es" unfolding deb_inv_def by simp
      from assms show ?thesis
        unfolding step deb_inv_def using p' tr due' sp dt by (auto simp: now)
    qed
  qed
qed

lemma inv_step: "deb_inv cb wt h \<Longrightarrow> deb_inv cb wt (host_step ev h)"
  by (cases ev) (simp_all only: inv_invoke inv_elapse inv_fire)

lemma inv_run: "deb_inv cb wt h \<Longrightarrow> deb_inv cb wt (host_run evs h)"
  unfolding host_run_def by (induction evs arbitrary: h) (simp_all add: inv_step)


lemma inv_invoke_pending:
  assumes "deb_inv cb wt h"
  shows "map (\<lambda>t. (t_set t, t_delay t, t_repeat t)) (pending_for cb (dh_window (host_step Invoke h))) =
           [(win_now (dh_window h), wt, False)]"
proof -
  have p: "pending_for cb (clearTimeout (pointer (dh_wrapper h)) (dh_window h)) = []"
    using assms unfolding deb_inv_def clearTimeout_def
    by (cases "pointer (dh_wrapper h)") (auto simp: pending_for_clear pending_for_clear_None)
  have n: "win_now (clearTimeout (pointer (dh_wrapper h)) (dh_window h)) = win_now (dh_window h)"
    by (simp add: clearTimeout_def clear_timer_def split: option.splits)
  show ?thesis
    using assms p n unfolding deb_inv_def
    by (auto simp: debounced_call_def setTimeout_def set_timer_def Let_def pending_for_def)
qed

text \<open>
  C7: take the wrapper \<open>debounce(callback, waitTime)\<close> in a window that holds no timeout
  for the callback, and let the wrapper be invoked, time pass and the host run timeouts
  whose delay has elapsed, in any order.  Then every run of the callback is directly
  preceded, among the invocations and runs, by an invocation that lies at least
  \<open>waitTime\<close> back (so it runs only after \<open>waitTime\<close> without a further invocation, and
  once for a burst); successive runs lie at least \<open>waitTime\<close> apart; at most one
  timeout for the callback is pending; and a further invocation leaves exactly one, a
  non-repeating timeout set at that moment with delay \<open>waitTime\<close>.
\<close>

theorem debounce_fires_once_per_burst:
  assumes "pending_for cb w = []"
  shows "debounced_trace wt (dh_trace (host_run evs (host_init cb wt w))) \<and>
         spaced wt (ran_times (dh_trace (host_run evs (host_init cb wt w)))) \<and>
         length (pending_for cb (dh_window (host_run evs (host_init cb wt w)))) \<le> 1 \<and>
         map (\<lambda>t. (t_set t, t_delay t, t_repeat t))
           (pending_for cb (dh_window (host_step Invoke (host_run evs (host_init cb wt w))))) =
           [(win_now (dh_window (host_run evs (host_init cb wt w))), wt, False)]"
proof -
  note i = inv_run [OF inv_init [OF assms], of wt evs]
  from i have "debounced_trace wt (dh_trace (host_run evs (host_init cb wt w))) \<and>
         spaced wt (ran_times (dh_trace (host_run evs (host_init cb wt w)))) \<and>
         length (pending_for cb (dh_window (host_run evs (host_init cb wt w)))) \<le> 1"
    unfolding deb_inv_def by auto
  with inv_invoke_pending [OF i] show ?thesis by simp
qed

theorem debounce_fires_once_per_burst_witness:
  "pending_for MutationHandler example_timer_window = [] \<and>
   dh_trace (host_run example_burst (host_init MutationHandler 300 example_timer_window)) =
     [Ran 400, Invoked 100, Invoked 0] \<and>
   debounced_trace 300
     (dh_trace (host_run example_burst (host_init MutationHandler 300 example_timer_window))) \<and>
   spaced 300 (ran_times
     (dh_trace (host_run example_burst (host_init MutationHandler 300 example_timer_window)))) \<and>
   length (pending_for MutationHandler
     (dh_window (host_run example_burst (host_init MutationHandler 300 example_timer_window)))) \<le> 1"
proof -
  have h: "pending_for MutationHandler example_timer_window = []" by code_simp
  have t: "dh_trace (host_run example_burst (host_init MutationHandler 300 example_timer_window)) =
     [Ran 400, Invoked 100, Invoked 0]" by code_simp
  note c = debounce_fires_once_per_burst [OF h, of 300 example_burst]
  show ?thesis
    by (intro conjI h t c [THEN conjunct1] c [THEN conjunct2, THEN conjunct1]
          c [THEN conjunct2, THEN conjunct2, THEN conjunct1])
qed

subsection \<open>C6: destroy\<close>

text \<open>
  C6: after \<open>destroy()\<close> returns, no timer, observer or container listener of the
  instance remains active.  For ScrollContainer this is what happens on the example
  instance: the window holds no timer and the element no listener afterwards.  For a
  PocScrollbar that observes mutations it fails once a mutation has been delivered: the
  debounced handler has a timeout pending, \<open>destroy()\<close> returns normally, disconnects
  the observer and removes the listeners, but the timeout (handle 1) is still pending, and
  when the browser runs it the handler throws a TypeError on the nulled container.
\<close>

theorem destroy_leaves_debounce_timeout:
  "returned (sc_destroy example_sc) = Some () \<and>
   win_timers (window (final_state (sc_destroy example_sc))) = [] \<and>
   el_listeners (element (final_state (sc_destroy example_sc))) = [] \<and>
   map t_handle (pending_for MutationHandler (window mutated_poc)) = [1] \<and>
   returned (poc_destroy mutated_poc) = Some () \<and>
   map_option mo_observing (observer (final_state (poc_destroy mutated_poc))) = Some False \<and>
   el_listeners (element (final_state (poc_destroy mutated_poc))) = [] \<and>
   last (view (final_state (poc_destroy mutated_poc))) = ViewDestroyed \<and>
   map (\<lambda>t. (t_handle t, t_callback t, t_repeat t))
     (win_timers (window (final_state (poc_destroy mutated_poc)))) =
     [(1, MutationHandler, False)] \<and>
   thrown (poc_run_timeout sn0 1 (final_state (poc_destroy mutated_poc))) = Some TypeError"
  by code_simp

subsection \<open>C8: applyOptionsToScollBarElement\<close>

text \<open>
  C8 as stated: the class option is added to the class list when it is a string.  The
  code adds it when it is truthy and a string: for the options
  \<open>{xElementClass: ''}\<close> the call returns and nothing is done to the element.
\<close>

theorem empty_class_string_not_added:
  "typeof_opt (get_prop (Obj [(''xElementClass'', Prim (JStr []))]) ''xElementClass'') = TString \<and>
   applyOptionsToScollBarElement any_key ts0 [] ''xElement''
     (Obj [(''xElementClass'', Prim (JStr []))]) = Inr ((), [])"
  by code_simp

text \<open>
  The array branch has no such guard: an empty entry reaches \<open>classList.add\<close>, which
  throws, and the entries after it are never added.
\<close>

lemma array_with_empty_entry_throws:
  "applyOptionsToScollBarElement any_key ts0 [] ''xElement''
     (Obj [(''xElementClass'', Arr [Prim (JStr ''a''), Prim (JStr []), Prim (JStr ''b'')])]) =
   Inl (SyntaxError, [ClassAdd (Prim (JStr ''a''))])"
  by code_simp

lemma falsy_has_no_props: "\<not> truthy_opt v \<Longrightarrow> get_prop v k = Prim JUndefined"
  by (cases v) simp_all

lemma forEach_add_acceptable:
  "list_all (acceptable_token ts) xs \<Longrightarrow> forEach_add ts e xs = Inr ((), e @ map ClassAdd xs)"
  by (induction xs arbitrary: e) (simp_all add: classList_add_def acceptable_token_def)

lemma forEach_style_assignable:
  "list_all assignable ks \<Longrightarrow>
   forEach_style assignable e styles ks =
     Inr ((), e @ map (\<lambda>aKey. StyleSet aKey (get_prop styles aKey)) ks)"
  by (induction ks arbitrary: e) simp_all

text \<open>
  C8, amended: \<open>applyOptionsToScollBarElement(element, name, options)\<close> assigns to
  \<open>element.style\<close> every key of \<open>options[name + 'Styles']\<close>, in order, exactly when that
  option is a non-array object, and then adds \<open>options[name + 'Class']\<close> to
  \<open>element.classList\<close> when that is a non-empty string, or each of its entries in order
  when it is an array, provided the element takes what it is given (every such key can
  be assigned on \<open>element.style\<close>, and every such token is one \<open>classList.add\<close> accepts:
  not empty, no whitespace); for any other shapes of the two options (and for missing
  options) it does nothing to the element.
\<close>

theorem options_applied_by_shape:
  assumes "list_all assignable (style_keys (get_prop aOptions (aElementName @ ''Styles'')))"
    and "list_all (acceptable_token ts)
           (class_arguments (get_prop aOptions (aElementName @ ''Class'')))"
  shows "applyOptionsToScollBarElement assignable ts aElement aElementName aOptions =
           Inr ((), aElement @
                    style_assignments (get_prop aOptions (aElementName @ ''Styles'')) @
                    map ClassAdd (class_arguments (get_prop aOptions (aElementName @ ''Class''))))"
proof (cases "truthy_opt aOptions")
  case False
  then show ?thesis
    by (simp add: applyOptionsToScollBarElement_def Let_def falsy_has_no_props)
next
  case True
  have styles: "(if truthy_opt aOptions \<and>
                    truthy_opt (get_prop aOptions (aElementName @ ''Styles'')) \<and>
                    typeof_opt (get_prop aOptions (aElementName @ ''Styles'')) = TObject \<and>
                    \<not> isArray (get_prop aOptions (aElementName @ ''Styles''))
                 then forEach_style assignable aElement (get_prop aOptions (aElementName @ ''Styles''))
                        (object_keys (get_prop aOptions (aElementName @ ''Styles'')))
                 else Inr ((), aElement)) =
                Inr ((), aElement @ style_assignments (get_prop aOptions (aElementName @ ''Styles'')))"
    using assms(1) True
    by (cases "get_prop aOptions (aElementName @ ''Styles'')")
      (auto simp: forEach_style_assignable split: jsval.splits)
  show ?thesis
  proof (cases "get_prop aOptions (aElementName @ ''Class'')")
    case (Prim v)
    with assms(2) True show ?thesis
      unfolding applyOptionsToScollBarElement_def Let_def styles
      by (cases v) (auto simp: classList_add_def acceptable_token_def split: if_splits)
  next
    case (Arr xs)
    with assms(2) True forEach_add_acceptable [of ts xs] show ?thesis
      unfolding applyOptionsToScollBarElement_def Let_def styles by simp
  next
    case (Obj kvs)
    with True show ?thesis
      unfolding applyOptionsToScollBarElement_def Let_def styles by simp
  next
    case Fun
    with True show ?thesis
      unfolding applyOptionsToScollBarElement_def Let_def styles by simp
  qed
qed

theorem options_applied_by_shape_witness:
  "list_all any_key (style_keys (get_prop example_bar_options (''xElement'' @ ''Styles''))) \<and>
   list_all (acceptable_token ts0)
     (class_arguments (get_prop example_bar_options (''xElement'' @ ''Class''))) \<and>
   list_all any_key (style_keys (get_prop example_bar_options (''yElement'' @ ''Styles''))) \<and>
   list_all (acceptable_token ts0)
     (class_arguments (get_prop example_bar_options (''yElement'' @ ''Class''))) \<and>
   applyOptionsToScollBarElement any_key ts0 [] ''xElement'' example_bar_options =
     Inr ((), [StyleSet ''width'' (Prim (JStr ''8px'')), StyleSet ''opacity'' (Prim (JNum (Fin 1))),
               ClassAdd (Prim (JStr ''bar'')), ClassAdd (Prim (JStr ''bar-x''))]) \<and>
   applyOptionsToScollBarElement any_key ts0 [] ''yElement'' example_bar_options =
     Inr ((), [ClassAdd (Prim (JStr ''bar''))])"
proof -
  have k1: "list_all any_key
     (style_keys (get_prop example_bar_options (''xElement'' @ ''Styles'')))"
    by code_simp
  have h1: "list_all (acceptable_token ts0)
     (class_arguments (get_prop example_bar_options (''xElement'' @ ''Class'')))"
    by code_simp
  have k2: "list_all any_key
     (style_keys (get_prop example_bar_options (''yElement'' @ ''Styles'')))"
    by code_simp
  have h2: "list_all (acceptable_token ts0)
     (class_arguments (get_prop example_bar_options (''yElement'' @ ''Class'')))"
    by code_simp
  have a: "[] @ style_assignments (get_prop example_bar_options (''xElement'' @ ''Styles'')) @
           map ClassAdd (class_arguments (get_prop example_bar_options (''xElement'' @ ''Class''))) =
           [StyleSet ''width'' (Prim (JStr ''8px'')), StyleSet ''opacity'' (Prim (JNum (Fin 1))),
            ClassAdd (Prim (JStr ''bar'')), ClassAdd (Prim (JStr ''bar-x''))]"
    by code_simp
  have b: "[] @ style_assignments (get_prop example_bar_options (''yElement'' @ ''Styles'')) @
           map ClassAdd (class_arguments (get_prop example_bar_options (''yElement'' @ ''Class''))) =
           [ClassAdd (Prim (JStr ''bar''))]"
    by code_simp
  have c1: "applyOptionsToScollBarElement any_key ts0 [] ''xElement'' example_bar_options =
     Inr ((), [StyleSet ''width'' (Prim (JStr ''8px'')), StyleSet ''opacity'' (Prim (JNum (Fin 1))),
               ClassAdd (Prim (JStr ''bar'')), ClassAdd (Prim (JStr ''bar-x''))])"
    unfolding options_applied_by_shape [OF k1 h1, of "[]"] a by (rule refl)
  have c2: "applyOptionsToScollBarElement any_key ts0 [] ''yElement'' example_bar_options =
     Inr ((), [ClassAdd (Prim (JStr ''bar''))])"
    unfolding options_applied_by_shape [OF k2 h2, of "[]"] b by (rule refl)
  show ?thesis by (intro conjI k1 h1 k2 h2 c1 c2)
qed

end
